theory Spec2Isabelle
  imports Main "HOL-Library.Code_Target_Numeral"
begin

section \<open>The replay client of \<open>tardis_client/tardis_client.py\<close>\<close>

text \<open>
  The module defines one class, \<open>TardisClient\<close>, with the asynchronous generator
  \<open>replay\<close>, the validator \<open>_validate_payload\<close> and the helper
  \<open>_try_parse_as_iso_date\<close>. The embedding follows the source line by line:
  every \<open>raise\<close> is a branch that returns an error value, the two \<open>while\<close> loops are
  recursive functions, and what the generator does to the outside (log records, file-system
  checks, sleeps, opened files, yielded records) is the list of events it returns.
\<close>

subsection \<open>Python values\<close>

text \<open>
  \<open>bytes\<close> objects are lists of 8-bit characters. A slice \<open>b[i:j]\<close> with
  \<open>0 \<le> i \<le> j\<close> is \<open>take (j - i) (drop i b)\<close>; it never raises, also when the
  indices are beyond the end.
\<close>

type_synonym bytes = "char list"

text \<open>
  The arguments the validator inspects with \<open>is None\<close> and \<open>isinstance\<close>:
  \<open>filters\<close> is \<open>None\<close>, a list of channels, or some other object; the
  \<open>symbols\<close> of a channel is \<open>None\<close>, a list whose elements are strings or other
  objects, or some other object.
\<close>

datatype symbol = SymStr string | SymOther

datatype symbols_arg = SymbolsNone | SymbolsList "symbol list" | SymbolsOther

record Channel =
  name :: string
  symbols :: symbols_arg

datatype filters_arg = FiltersNone | FiltersList "Channel list" | FiltersOther

text \<open>
  An f-string is kept as its parts, in order: the literal text and the values formatted
  into it.
\<close>

datatype fvalue = FStr string | FNone | FSymbols symbols_arg

datatype fpart = Lit string | Val fvalue

datatype error =
    ValueError "fpart list"
  | NameError string
  | KeyError string
  | TypeError string
  | OverflowError string
  | FileNotFoundError string
  | RecursionError string

text \<open>
  A \<open>ValueError\<close> raised inside the standard library is recorded with the name of the
  function that raised it; its message is not modelled.
\<close>

definition library_error :: "string \<Rightarrow> error" where
  "library_error f = ValueError [Lit f]"

subsection \<open>\<open>datetime\<close>\<close>

text \<open>
  A \<open>datetime\<close> is a point of the proleptic Gregorian calendar between
  \<open>0001-01-01T00:00:00\<close> and \<open>9999-12-31T23:59:59.999999\<close> with microsecond
  resolution, with or without a UTC offset. It is represented by the number of
  microseconds since \<open>0001-01-01T00:00:00\<close> on its own clock, and the offset of its
  \<open>tzinfo\<close> in microseconds (\<open>None\<close> for a naive value).
\<close>

record datetime =
  micros :: nat
  utcoffset :: "int option"

definition is_leap :: "nat \<Rightarrow> bool" where
  "is_leap y = (y mod 4 = 0 \<and> (y mod 100 \<noteq> 0 \<or> y mod 400 = 0))"

definition days_in_month :: "nat \<Rightarrow> nat \<Rightarrow> nat" where
  "days_in_month y m =
     (if m = 2 then (if is_leap y then 29 else 28)
      else if m = 4 \<or> m = 6 \<or> m = 9 \<or> m = 11 then 30 else 31)"

definition days_before_year :: "nat \<Rightarrow> nat" where
  "days_before_year y = (y - 1) * 365 + (y - 1) div 4 - (y - 1) div 100 + (y - 1) div 400"

definition days_before_month :: "nat \<Rightarrow> nat \<Rightarrow> nat" where
  "days_before_month y m = sum_list (map (days_in_month y) [1..<m])"

text \<open>The ordinal of a date: \<open>0001-01-01\<close> is day 1; \<open>9999-12-31\<close> is day 3652059.\<close>

definition ymd2ord :: "nat \<Rightarrow> nat \<Rightarrow> nat \<Rightarrow> nat" where
  "ymd2ord y m d = days_before_year y + days_before_month y m + d"

definition MAXORDINAL :: nat where
  "MAXORDINAL = 3652059"

definition micros_per_day :: nat where
  "micros_per_day = 86400000000"

text \<open>
  The constructor \<open>datetime(year, month, day, hour, minute, second, microsecond, tzinfo)\<close>;
  \<open>None\<close> stands for the \<open>ValueError\<close> it raises on a field out of range. A
  \<open>timezone\<close> offset is strictly between minus and plus 24 hours.
\<close>

definition mk_datetime ::
  "nat \<Rightarrow> nat \<Rightarrow> nat \<Rightarrow> nat \<Rightarrow> nat \<Rightarrow> nat \<Rightarrow> nat \<Rightarrow> int option \<Rightarrow> datetime option" where
  "mk_datetime y m d hh mm ss us tz =
     (if 1 \<le> y \<and> y \<le> 9999 \<and> 1 \<le> m \<and> m \<le> 12 \<and> 1 \<le> d \<and> d \<le> days_in_month y m
         \<and> hh \<le> 23 \<and> mm \<le> 59 \<and> ss \<le> 59 \<and> us \<le> 999999
         \<and> (case tz of None \<Rightarrow> True
             | Some off \<Rightarrow> - int micros_per_day < off \<and> off < int micros_per_day)
      then Some \<lparr> micros = ((ymd2ord y m d - 1) * 86400 + hh * 3600 + mm * 60 + ss) * 1000000 + us,
                  utcoffset = tz \<rparr>
      else None)"

text \<open>
  Comparison. Two naive values compare by their clocks, two aware values by their UTC
  instants; comparing a naive with an aware value raises \<open>TypeError\<close>.
\<close>

definition dt_utc :: "datetime \<Rightarrow> int" where
  "dt_utc d = int (micros d) - (case utcoffset d of None \<Rightarrow> 0 | Some off \<Rightarrow> off)"

definition dt_comparable :: "datetime \<Rightarrow> datetime \<Rightarrow> bool" where
  "dt_comparable a b = ((utcoffset a = None) = (utcoffset b = None))"

definition dt_less :: "datetime \<Rightarrow> datetime \<Rightarrow> error + bool" where
  "dt_less a b =
     (if dt_comparable a b then Inr (dt_utc a < dt_utc b)
      else Inl (TypeError ''can't compare offset-naive and offset-aware datetimes''))"

definition dt_ge :: "datetime \<Rightarrow> datetime \<Rightarrow> error + bool" where
  "dt_ge a b =
     (if dt_comparable a b then Inr (dt_utc a \<ge> dt_utc b)
      else Inl (TypeError ''can't compare offset-naive and offset-aware datetimes''))"

text \<open>
  \<open>d + timedelta(seconds=n)\<close>: the clock moves by \<open>n\<close> seconds and the \<open>tzinfo\<close>
  stays; a result after year 9999 raises \<open>OverflowError\<close>.
\<close>

definition dt_add_seconds :: "datetime \<Rightarrow> nat \<Rightarrow> error + datetime" where
  "dt_add_seconds d n =
     (if micros d + n * 1000000 < MAXORDINAL * micros_per_day
      then Inr (d\<lparr>micros := micros d + n * 1000000\<rparr>)
      else Inl (OverflowError ''date value out of range''))"

subsection \<open>What the module imports\<close>

text \<open>
  \<^verbatim>\<open>
  from tardis_client.consts import EXCHANGES, EXCHANGE_CHANNELS_INFO
  from tardis_client.handy import get_slice_cache_path
  from datetime import datetime, timedelta
  import json
  \<close>
  \<open>consts.py\<close> and \<open>handy.py\<close> are not part of the sources, and the parsers belong to
  the standard library, so all of them are parameters of the model:
  \<^item> \<open>EXCHANGES\<close>, the known exchanges, and \<open>EXCHANGE_CHANNELS_INFO\<close>, the dictionary
    from an exchange to its channel names;
  \<^item> \<open>get_slice_cache_path(cache_dir, exchange, date, filters)\<close>;
  \<^item> \<open>fromisoformat\<close>: \<open>datetime.fromisoformat\<close> on a \<open>str\<close>, \<open>None\<close> where it raises
    \<open>ValueError\<close>;
  \<^item> \<open>strptime\<close>: \<open>datetime.strptime(b.decode("utf-8"), "%Y-%m-%dT%H:%M:%S.%f")\<close> on
    \<open>bytes\<close>, \<open>None\<close> where the decoding or the parsing raises \<open>ValueError\<close>;
  \<^item> \<open>json_loads\<close>: \<open>json.loads\<close> on \<open>bytes\<close>, with the exception it raises where it
    raises one: \<open>JSONDecodeError\<close> or \<open>UnicodeDecodeError\<close>, both subclasses of
    \<open>ValueError\<close>, for a text that is no JSON document, or another one, such as the
    \<open>RecursionError\<close> of a document that is nested too deeply.
  The theorems that quantify over the record hold for every such library.
\<close>

datatype json =
    JNull
  | JBool bool
  | JInt int
  | JFloat string
  | JStr string
  | JArr "json list"
  | JObj "(string \<times> json) list"

record imported =
  EXCHANGES :: "string list"
  EXCHANGE_CHANNELS_INFO :: "string \<rightharpoonup> string list"
  get_slice_cache_path :: "string \<Rightarrow> string \<Rightarrow> datetime \<Rightarrow> filters_arg \<Rightarrow> string"
  fromisoformat :: "string \<Rightarrow> datetime option"
  strptime :: "bytes \<Rightarrow> datetime option"
  json_loads :: "bytes \<Rightarrow> error + json"

text \<open>The fields \<open>__init__\<close> stores in the client.\<close>

record TardisClient =
  endpoint :: string
  cache_dir :: string
  api_key :: string

subsection \<open>The generator's events and the state of a call\<close>

text \<open>
  \<open>Response = namedtuple("Response", ["local_timestamp", "message"])\<close>: each component
  is a \<open>bytes\<close> object, a \<open>datetime\<close> or a decoded JSON value.
\<close>

datatype field = Bytes bytes | Datetime datetime | Json json

record Response =
  local_timestamp :: field
  message :: field

text \<open>
  The arguments of \<open>logger.debug\<close> (the elapsed wall-clock time of the last record is
  left out), and the effects of \<open>replay\<close> in the order they happen.
\<close>

datatype log_record =
    ReplayStarted string datetime datetime filters_arg
  | GettingSlice string
  | WaitingForSlice string
  | ProcessedSlice string nat
  | ReplayFinished string datetime datetime filters_arg

datatype event =
    Debug log_record
  | IsFile string
  | Sleep
  | GzipOpen string
  | Yield Response

text \<open>
  The arguments of a call of \<open>replay\<close>. The validator runs on a state that holds these
  arguments, as the objects the caller passed, and the events so far; it returns the state
  it leaves.
\<close>

record request =
  exchange :: string
  from_date :: "string option"
  to_date :: "string option"
  filters :: filters_arg
  decode_response :: bool

record call_state =
  req :: request
  trace :: "event list"

subsection \<open>\<open>_try_parse_as_iso_date\<close> and \<open>_validate_payload\<close>\<close>

text \<open>
  \<open>datetime.fromisoformat(x)\<close> for an argument that is a string or \<open>None\<close>.
\<close>

definition parse_date :: "imported \<Rightarrow> string option \<Rightarrow> error + datetime" where
  "parse_date env x =
     (case x of
        None \<Rightarrow> Inl (TypeError ''fromisoformat: argument must be str'')
      | Some s \<Rightarrow>
          (case fromisoformat env s of
             None \<Rightarrow> Inl (library_error ''datetime.fromisoformat'')
           | Some d \<Rightarrow> Inr d))"

text \<open>
  \<^verbatim>\<open>
  def _try_parse_as_iso_date(self, date_string):
      try:
          datetime.fromisoformat(date_string)
          return True
      except ValueError:
          return False
  \<close>
\<close>

definition try_parse_as_iso_date :: "imported \<Rightarrow> string option \<Rightarrow> error + bool" where
  "try_parse_as_iso_date env date_string =
     (case parse_date env date_string of
        Inr _ \<Rightarrow> Inr True
      | Inl (ValueError _) \<Rightarrow> Inr False
      | Inl e \<Rightarrow> Inl e)"

definition fmt_date :: "string option \<Rightarrow> fvalue" where
  "fmt_date x = (case x of None \<Rightarrow> FNone | Some s \<Rightarrow> FStr s)"

text \<open>\<open>sep.join(xs)\<close> for a list of strings.\<close>

fun join :: "string \<Rightarrow> string list \<Rightarrow> string" where
  "join sep [] = []"
| "join sep [x] = x"
| "join sep (x # y # ys) = x @ sep @ join sep (y # ys)"

text \<open>
  The loop over the filters, lines 120 to 135:
  \<^verbatim>\<open>
  for filter in filters:
      if filter.name not in EXCHANGE_CHANNELS_INFO[exchange]:
          valid_channels = ", ".join(EXCHANGE_CHANNELS_INFO[exchange])
          raise ValueError(
              f"Invalid 'name' argument: {filter.name}. Please provide one of the following channels: {valid_channels}."
          )
      if filter.symbols is None:
          continue
      if isinstance(filter.symbols, list) is False or any(
          isinstance(symbol, str) == False for symbol in filter.symbols
      ):
          raise ValueError(
              f"Invalid 'symbols[]' argument: {filter.symbols}. Please provide list of symbol strings."
          )
  \<close>
  The subscript \<open>EXCHANGE_CHANNELS_INFO[exchange]\<close> raises \<open>KeyError\<close> on a missing key.
  The loop variable \<open>filter\<close> is written \<open>flt\<close>.
\<close>

definition is_str :: "symbol \<Rightarrow> bool" where
  "is_str x = (case x of SymStr _ \<Rightarrow> True | SymOther \<Rightarrow> False)"

definition invalid_symbols :: "symbols_arg \<Rightarrow> error" where
  "invalid_symbols sy =
     ValueError [Lit ''Invalid 'symbols[]' argument: '', Val (FSymbols sy),
                 Lit ''. Please provide list of symbol strings.'']"

fun validate_filters :: "imported \<Rightarrow> Channel list \<Rightarrow> call_state \<Rightarrow> (error + unit) \<times> call_state" where
  "validate_filters env [] s = (Inr (), s)"
| "validate_filters env (flt # rest) s =
     (case EXCHANGE_CHANNELS_INFO env (exchange (req s)) of
        None \<Rightarrow> (Inl (KeyError (exchange (req s))), s)
      | Some channels \<Rightarrow>
          if name flt \<notin> set channels
          then (Inl (ValueError
                  [Lit ''Invalid 'name' argument: '', Val (FStr (name flt)),
                   Lit ''. Please provide one of the following channels: '',
                   Val (FStr (join '', '' channels)), Lit ''.'']), s)
          else
            (case symbols flt of
               SymbolsNone \<Rightarrow> validate_filters env rest s
             | SymbolsOther \<Rightarrow> (Inl (invalid_symbols (symbols flt)), s)
             | SymbolsList syms \<Rightarrow>
                 if list_ex (\<lambda>symbol. \<not> is_str symbol) syms
                 then (Inl (invalid_symbols (symbols flt)), s)
                 else validate_filters env rest s))"

text \<open>
  \<open>_validate_payload\<close>, lines 92 to 135. The f-string of the first \<open>raise\<close> reads
  \<^verbatim>\<open>
  f"Invalid 'exchange' argument: {exchange}. Please provide one of the following exchanges: {sEXCHANGES.join(', ')}."
  \<close>
  and the module binds no name \<open>sEXCHANGES\<close>: evaluating the argument of \<open>ValueError\<close>
  raises \<open>NameError\<close> before the \<open>ValueError\<close> is made.
\<close>

definition iso_date_hint :: string where
  "iso_date_hint = ''. Please provide valid ISO date string. https://docs.python.org/3/library/datetime.html#datetime.date.fromisoformat''"

definition invalid_from_date :: "string option \<Rightarrow> error" where
  "invalid_from_date x =
     ValueError [Lit ''Invalid 'from_date' argument: '', Val (fmt_date x), Lit iso_date_hint]"

definition invalid_to_date :: "string option \<Rightarrow> error" where
  "invalid_to_date x =
     ValueError [Lit ''Invalid 'to_date' argument: '', Val (fmt_date x), Lit iso_date_hint]"

definition invalid_date_order :: error where
  "invalid_date_order =
     ValueError [Lit ''Invalid 'from_date' and 'to_date' arguments combination. Please provide 'to_date' date string that is later than 'from_date'.'']"

definition invalid_filters :: error where
  "invalid_filters = ValueError [Lit ''Invalid 'filters' argument. Please provide valid filters Channel list'']"

text \<open>
  Lines 113 to 135, the checks of \<open>filters\<close>:
  \<^verbatim>\<open>
  if filters is None:
      return
  if isinstance(filters, list) is False:
      raise ValueError("Invalid 'filters' argument. Please provide valid filters Channel list")
  if len(filters) > 0:
      for filter in filters:
          ...
  \<close>
\<close>

definition validate_filters_arg :: "imported \<Rightarrow> call_state \<Rightarrow> (error + unit) \<times> call_state" where
  "validate_filters_arg env s =
     (case filters (req s) of
        FiltersNone \<Rightarrow> (Inr (), s)
      | FiltersOther \<Rightarrow> (Inl invalid_filters, s)
      | FiltersList fs \<Rightarrow> if length fs > 0 then validate_filters env fs s else (Inr (), s))"

text \<open>
  Lines 93 to 111, the checks of the exchange and the dates:
  \<^verbatim>\<open>
  if exchange not in EXCHANGES:
      raise ValueError(f"...")
  if from_date is None or self._try_parse_as_iso_date(from_date) is False:
      raise ValueError(f"Invalid 'from_date' argument: {from_date}. ...")
  if to_date is None or self._try_parse_as_iso_date(to_date) is False:
      raise ValueError(f"Invalid 'to_date' argument: {to_date}. ...")
  if datetime.fromisoformat(from_date) >= datetime.fromisoformat(to_date):
      raise ValueError("Invalid 'from_date' and 'to_date' arguments combination. ...")
  \<close>
\<close>

definition validate_payload :: "imported \<Rightarrow> call_state \<Rightarrow> (error + unit) \<times> call_state" where
  "validate_payload env s =
     (if exchange (req s) \<notin> set (EXCHANGES env) then (Inl (NameError ''sEXCHANGES''), s)
      else
        (case (if from_date (req s) = None then Inr False
               else try_parse_as_iso_date env (from_date (req s))) of
           Inl e \<Rightarrow> (Inl e, s)
         | Inr False \<Rightarrow> (Inl (invalid_from_date (from_date (req s))), s)
         | Inr True \<Rightarrow>
        (case (if to_date (req s) = None then Inr False
               else try_parse_as_iso_date env (to_date (req s))) of
           Inl e \<Rightarrow> (Inl e, s)
         | Inr False \<Rightarrow> (Inl (invalid_to_date (to_date (req s))), s)
         | Inr True \<Rightarrow>
        (case parse_date env (from_date (req s)) of
           Inl e \<Rightarrow> (Inl e, s)
         | Inr f \<Rightarrow>
        (case parse_date env (to_date (req s)) of
           Inl e \<Rightarrow> (Inl e, s)
         | Inr t \<Rightarrow>
        (case dt_ge f t of
           Inl e \<Rightarrow> (Inl e, s)
         | Inr True \<Rightarrow> (Inl invalid_date_order, s)
         | Inr False \<Rightarrow> validate_filters_arg env s))))))"

subsection \<open>Reading a slice file\<close>

definition DATE_MESSAGE_SPLIT_INDEX :: nat where
  "DATE_MESSAGE_SPLIT_INDEX = 28"

text \<open>
  A slice file is represented by its decompressed content. \<open>for line in file\<close> on a
  binary file reads it with \<open>readline\<close>: each line ends with its newline byte, but for
  a last line that has none, and the iteration stops at the end of the content.
\<close>

fun file_lines :: "bytes \<Rightarrow> bytes list" where
  "file_lines [] = []"
| "file_lines (c # cs) =
     (if c = CHR 0x0A then [c] # file_lines cs
      else (case file_lines cs of [] \<Rightarrow> [[c]] | l # ls \<Rightarrow> (c # l) # ls))"

text \<open>The slices \<open>b[i:j]\<close> and \<open>b[i:]\<close> of a \<open>bytes\<close> object.\<close>

definition slice :: "nat \<Rightarrow> nat \<Rightarrow> bytes \<Rightarrow> bytes" where
  "slice i j b = take (j - i) (drop i b)"

definition slice_from :: "nat \<Rightarrow> bytes \<Rightarrow> bytes" where
  "slice_from i b = drop i b"

text \<open>
  Lines 69 to 76, the record of one line. An exception of \<open>strptime\<close> or of
  \<open>json.loads\<close> is not caught: it leaves the generator as it is.
  \<^verbatim>\<open>
  if decode_response:
      timestamp = datetime.strptime(
          line[0 : DATE_MESSAGE_SPLIT_INDEX - 2].decode("utf-8"), "%Y-%m-%dT%H:%M:%S.%f"
      )
      yield Response(timestamp, json.loads(line[DATE_MESSAGE_SPLIT_INDEX + 1 :]))
  else:
      yield Response(line[0:DATE_MESSAGE_SPLIT_INDEX], line[DATE_MESSAGE_SPLIT_INDEX + 1 :])
  \<close>
\<close>

definition decode_line :: "imported \<Rightarrow> bool \<Rightarrow> bytes \<Rightarrow> error + Response" where
  "decode_line env decode line =
     (if decode then
        (case strptime env (slice 0 (DATE_MESSAGE_SPLIT_INDEX - 2) line) of
           None \<Rightarrow> Inl (library_error ''datetime.strptime'')
         | Some timestamp \<Rightarrow>
             (case json_loads env (slice_from (DATE_MESSAGE_SPLIT_INDEX + 1) line) of
                Inl e \<Rightarrow> Inl e
              | Inr m \<Rightarrow> Inr \<lparr> local_timestamp = Datetime timestamp, message = Json m \<rparr>))
      else Inr \<lparr> local_timestamp = Bytes (slice 0 DATE_MESSAGE_SPLIT_INDEX line),
                 message = Bytes (slice_from (DATE_MESSAGE_SPLIT_INDEX + 1) line) \<rparr>)"

text \<open>
  Lines 65 to 76, the loop over the lines of one file. It returns the records it yielded,
  the final \<open>messages_count\<close> and the exception that ended it, if one did.
  \<^verbatim>\<open>
  for line in file:
      if len(line) == 0:
          continue
      messages_count = messages_count + 1
      ...
  \<close>
\<close>

fun read_lines :: "imported \<Rightarrow> bool \<Rightarrow> bytes list \<Rightarrow> nat \<Rightarrow> event list \<times> nat \<times> error option" where
  "read_lines env decode [] messages_count = ([], messages_count, None)"
| "read_lines env decode (line # rest) messages_count =
     (if length line = 0 then read_lines env decode rest messages_count
      else
        (case decode_line env decode line of
           Inl e \<Rightarrow> ([], messages_count + 1, Some e)
         | Inr r \<Rightarrow>
             (case read_lines env decode rest (messages_count + 1) of
                (ys, n, raised) \<Rightarrow> (Yield r # ys, n, raised))))"

subsection \<open>Waiting for a slice\<close>

text \<open>
  The cache directory is written by another process while \<open>replay\<close> runs. The world is
  the content of the file system at each tick of a clock that advances by one with every
  \<open>asyncio.sleep(0.3)\<close> of the call; \<open>os.path.isfile\<close> and \<open>gzip.open\<close> read
  the file system of the current tick.
\<close>

type_synonym world = "nat \<Rightarrow> string \<rightharpoonup> bytes"

text \<open>
  Lines 51 to 62. The loop has no bound: where the file never appears the call does not
  return, which is the value \<open>None\<close>.
  \<^verbatim>\<open>
  current_slice_path = None
  while current_slice_path is None:
      path_to_check = get_slice_cache_path(self.cache_dir, exchange, current_slice_date, filters)
      self.logger.debug("getting slice: %s", path_to_check)
      if os.path.isfile(path_to_check):
          current_slice_path = path_to_check
      else:
          self.logger.debug("waiting for slice: %s", path_to_check)
          await asyncio.sleep(0.3)
  \<close>
  It returns the path, the tick at which the file was seen, and the events of the loop.
\<close>

partial_function (option) wait_for_slice ::
  "imported \<Rightarrow> TardisClient \<Rightarrow> world \<Rightarrow> request \<Rightarrow> datetime \<Rightarrow> nat \<Rightarrow> event list
     \<Rightarrow> (string \<times> nat \<times> event list) option" where
  "wait_for_slice env self w rq current_slice_date t acc =
     (let path_to_check =
            get_slice_cache_path env (cache_dir self) (exchange rq) current_slice_date (filters rq)
      in if w t path_to_check \<noteq> None
         then Some (path_to_check, t,
                    acc @ [Debug (GettingSlice path_to_check), IsFile path_to_check])
         else wait_for_slice env self w rq current_slice_date (Suc t)
                (acc @ [Debug (GettingSlice path_to_check), IsFile path_to_check,
                        Debug (WaitingForSlice path_to_check), Sleep]))"

declare wait_for_slice.simps [code]

subsection \<open>\<open>replay\<close>\<close>

text \<open>How a call ends: the generator is exhausted, or an exception leaves it.\<close>

datatype outcome = Returned | Raised error

text \<open>
  Lines 50 to 79, the loop over the slices, from the cursor \<open>current_slice_date\<close> and
  the tick \<open>t\<close>:
  \<^verbatim>\<open>
  while current_slice_date < to_date:
      (wait for the slice)
      messages_count = 0
      with gzip.open(current_slice_path, "rb") as file:
          (the loop over the lines)
      self.logger.debug("processed slice: %s, messages count: %i", current_slice_path, messages_count)
      current_slice_date = current_slice_date + timedelta(seconds=60)
  \<close>
  The result is the events from this turn on and how the call ends, and \<open>None\<close> where
  the wait for a slice does not end. \<open>gzip.open\<close> raises \<open>FileNotFoundError\<close> for a
  path that holds no file; the branch is there for the sake of the translation, since
  \<open>isfile\<close> and \<open>gzip.open\<close> read the file system of the same tick.
\<close>

function replay_slices ::
  "imported \<Rightarrow> TardisClient \<Rightarrow> world \<Rightarrow> request \<Rightarrow> datetime \<Rightarrow> datetime \<Rightarrow> nat
     \<Rightarrow> (event list \<times> outcome) option" where
  "replay_slices env self w rq to_dt current_slice_date t =
     (case dt_less current_slice_date to_dt of
        Inl e \<Rightarrow> Some ([], Raised e)
      | Inr False \<Rightarrow> Some ([], Returned)
      | Inr True \<Rightarrow>
          (case wait_for_slice env self w rq current_slice_date t [] of
             None \<Rightarrow> None
           | Some (current_slice_path, t', waited) \<Rightarrow>
               (case w t' current_slice_path of
                  None \<Rightarrow> Some (waited, Raised (FileNotFoundError current_slice_path))
                | Some content \<Rightarrow>
                    (case read_lines env (decode_response rq) (file_lines content) 0 of
                       (ys, messages_count, raised) \<Rightarrow>
                         (case raised of
                            Some e \<Rightarrow> Some (waited @ GzipOpen current_slice_path # ys, Raised e)
                          | None \<Rightarrow>
                              (case dt_add_seconds current_slice_date 60 of
                                 Inl e \<Rightarrow>
                                   Some (waited @ GzipOpen current_slice_path # ys
                                           @ [Debug (ProcessedSlice current_slice_path messages_count)],
                                         Raised e)
                               | Inr next_date \<Rightarrow>
                                   (case replay_slices env self w rq to_dt next_date t' of
                                      None \<Rightarrow> None
                                    | Some (evs, out) \<Rightarrow>
                                        Some (waited @ GzipOpen current_slice_path # ys
                                                @ [Debug (ProcessedSlice current_slice_path messages_count)]
                                                @ evs,
                                              out))))))))"
  by pat_completeness auto
termination
  by (relation "measure (\<lambda>(env, self, w, rq, to_dt, cur, t). nat (dt_utc to_dt - dt_utc cur))")
     (auto simp: dt_less_def dt_add_seconds_def dt_utc_def split: if_splits)

declare replay_slices.simps [simp del]

text \<open>
  \<open>replay\<close>, lines 32 to 90. The generator starts at tick 0 of its world.
  \<^verbatim>\<open>
  self._validate_payload(exchange, from_date, to_date, filters)
  from_date = datetime.fromisoformat(from_date)
  to_date = datetime.fromisoformat(to_date)
  current_slice_date = from_date
  self.logger.debug("replay for '%s' exchange started from: %s, to: %s, filters: %s", ...)
  while current_slice_date < to_date:
      ...
  self.logger.debug("replay for '%s' exchange finished from: %s, to: %s, filters: %s, total time: %s seconds", ...)
  \<close>
\<close>

definition replay ::
  "imported \<Rightarrow> TardisClient \<Rightarrow> world \<Rightarrow> request \<Rightarrow> (event list \<times> outcome) option" where
  "replay env self w rq =
     (case validate_payload env \<lparr> req = rq, trace = [] \<rparr> of
        (Inl e, s) \<Rightarrow> Some (trace s, Raised e)
      | (Inr _, s) \<Rightarrow>
          (case parse_date env (from_date (req s)) of
             Inl e \<Rightarrow> Some (trace s, Raised e)
           | Inr from_dt \<Rightarrow>
               (case parse_date env (to_date (req s)) of
                  Inl e \<Rightarrow> Some (trace s, Raised e)
                | Inr to_dt \<Rightarrow>
                    (case replay_slices env self w (req s) to_dt from_dt 0 of
                       None \<Rightarrow> None
                     | Some (evs, out) \<Rightarrow>
                         Some (trace s
                                 @ [Debug (ReplayStarted (exchange (req s)) from_dt to_dt (filters (req s)))]
                                 @ evs
                                 @ (case out of
                                      Returned \<Rightarrow>
                                        [Debug (ReplayFinished (exchange (req s)) from_dt to_dt (filters (req s)))]
                                    | Raised _ \<Rightarrow> []),
                               out)))))"

section \<open>A reference library\<close>

text \<open>
  Concrete values for the imported names, used where a statement is about concrete texts.
  The three parsers follow the documentation of Python 3.7 to 3.10 on ASCII input, which
  is what the slice format and the scenarios of the specification use. Outside it they
  answer \<open>None\<close>, where CPython may accept more: decimal digits beyond ASCII in
  dates, UTF-8 text and UTF-16 or UTF-32 input in JSON, the wider ISO 8601 forms of
  \<open>fromisoformat\<close> from Python 3.11 on.
\<close>

subsection \<open>Digits\<close>

definition is_ascii :: "string \<Rightarrow> bool" where
  "is_ascii s = list_all (\<lambda>c. (of_char c :: nat) < 128) s"

definition is_digit :: "char \<Rightarrow> bool" where
  "is_digit c = (c \<in> set ''0123456789'')"

definition digit_val :: "char \<Rightarrow> nat" where
  "digit_val c = of_char c - 48"

definition digits_val :: "string \<Rightarrow> nat" where
  "digits_val s = foldl (\<lambda>v c. 10 * v + digit_val c) 0 s"

text \<open>The number written by the \<open>n\<close> characters from index \<open>i\<close>, when all are digits.\<close>

definition digits_at :: "nat \<Rightarrow> nat \<Rightarrow> string \<Rightarrow> nat option" where
  "digits_at i n s =
     (let f = take n (drop i s)
      in if length f = n \<and> list_all is_digit f then Some (digits_val f) else None)"

definition char_at :: "nat \<Rightarrow> string \<Rightarrow> char \<Rightarrow> bool" where
  "char_at i s c = (i < length s \<and> s ! i = c)"

subsection \<open>\<open>datetime.strptime\<close> with \<open>%Y-%m-%dT%H:%M:%S.%f\<close>\<close>

text \<open>
  The format is matched as the regular expression \<open>_strptime\<close> builds from it, ignoring
  case: four digits for \<open>%Y\<close>; one or two digits for \<open>%m\<close> (1 to 12), \<open>%d\<close> (1 to 31,
  or a space and a digit), \<open>%H\<close> (0 to 23), \<open>%M\<close> (0 to 59) and \<open>%S\<close> (0 to 61); one
  to six digits for \<open>%f\<close>, padded with zeros on the right; nothing may remain. The
  constructor then rejects the year 0, a day the month does not have, and the seconds 60
  and 61.
\<close>

definition field_value :: "nat \<Rightarrow> nat \<Rightarrow> string \<Rightarrow> nat option" where
  "field_value lo hi f =
     (if (length f = 1 \<or> length f = 2) \<and> list_all is_digit f
         \<and> lo \<le> digits_val f \<and> digits_val f \<le> hi
      then Some (digits_val f) else None)"

definition day_value :: "string \<Rightarrow> nat option" where
  "day_value f =
     (case f of
        [sp, c] \<Rightarrow> if sp = CHR '' '' \<and> is_digit c \<and> c \<noteq> CHR ''0'' then Some (digit_val c)
                    else field_value 1 31 f
      | _ \<Rightarrow> field_value 1 31 f)"

text \<open>The text before the first character of \<open>seps\<close>, and the text after it.\<close>

definition split_field :: "string \<Rightarrow> string \<Rightarrow> (string \<times> string) option" where
  "split_field seps s =
     (case dropWhile (\<lambda>c. c \<notin> set seps) s of
        [] \<Rightarrow> None
      | _ # rest \<Rightarrow> Some (takeWhile (\<lambda>c. c \<notin> set seps) s, rest))"

definition py_strptime :: "bytes \<Rightarrow> datetime option" where
  "py_strptime b =
     (if \<not> is_ascii b then None
      else
        (case digits_at 0 4 b of None \<Rightarrow> None | Some y \<Rightarrow>
        if \<not> char_at 4 b (CHR ''-'') then None else
        (case split_field ''-'' (drop 5 b) of None \<Rightarrow> None | Some (fm, r1) \<Rightarrow>
        (case split_field ''Tt'' r1 of None \<Rightarrow> None | Some (fd, r2) \<Rightarrow>
        (case split_field '':'' r2 of None \<Rightarrow> None | Some (fH, r3) \<Rightarrow>
        (case split_field '':'' r3 of None \<Rightarrow> None | Some (fM, r4) \<Rightarrow>
        (case split_field ''.'' r4 of None \<Rightarrow> None | Some (fS, ff) \<Rightarrow>
        (case field_value 1 12 fm of None \<Rightarrow> None | Some m \<Rightarrow>
        (case day_value fd of None \<Rightarrow> None | Some d \<Rightarrow>
        (case field_value 0 23 fH of None \<Rightarrow> None | Some hh \<Rightarrow>
        (case field_value 0 59 fM of None \<Rightarrow> None | Some mm \<Rightarrow>
        (case field_value 0 61 fS of None \<Rightarrow> None | Some ss \<Rightarrow>
        if 1 \<le> length ff \<and> length ff \<le> 6 \<and> list_all is_digit ff
        then mk_datetime y m d hh mm ss (digits_val (ff @ replicate (6 - length ff) (CHR ''0''))) None
        else None))))))))))))"

subsection \<open>\<open>datetime.fromisoformat\<close>\<close>

text \<open>
  The format of the documentation:
  \<open>YYYY-MM-DD[*HH[:MM[:SS[.fff[fff]]]][+HH:MM[:SS[.ffffff]]]]\<close>, where \<open>*\<close> is any one
  character and the sign of the offset is \<open>+\<close> or \<open>-\<close>.
\<close>

text \<open>\<open>HH[:MM[:SS[.fff[fff]]]]\<close>: hours, minutes, seconds and microseconds.\<close>

definition parse_hh_mm_ss_ff :: "string \<Rightarrow> (nat \<times> nat \<times> nat \<times> nat) option" where
  "parse_hh_mm_ss_ff s =
     (let n = length s in
      if n \<noteq> 2 \<and> n \<noteq> 5 \<and> n \<noteq> 8 \<and> n \<noteq> 12 \<and> n \<noteq> 15 then None
      else
        (case digits_at 0 2 s of None \<Rightarrow> None | Some hh \<Rightarrow>
        if n = 2 then Some (hh, 0, 0, 0)
        else if \<not> char_at 2 s (CHR '':'') then None else
        (case digits_at 3 2 s of None \<Rightarrow> None | Some mm \<Rightarrow>
        if n = 5 then Some (hh, mm, 0, 0)
        else if \<not> char_at 5 s (CHR '':'') then None else
        (case digits_at 6 2 s of None \<Rightarrow> None | Some ss \<Rightarrow>
        if n = 8 then Some (hh, mm, ss, 0)
        else if \<not> char_at 8 s (CHR ''.'') then None else
        (case digits_at 9 (n - 9) s of None \<Rightarrow> None | Some us \<Rightarrow>
        Some (hh, mm, ss, if n = 12 then us * 1000 else us))))))"

text \<open>The offset \<open>HH:MM[:SS[.ffffff]]\<close> after its sign, in microseconds.\<close>

definition parse_offset :: "string \<Rightarrow> nat option" where
  "parse_offset s =
     (if length s \<noteq> 5 \<and> length s \<noteq> 8 \<and> length s \<noteq> 15 then None
      else
        (case parse_hh_mm_ss_ff s of
           None \<Rightarrow> None
         | Some (hh, mm, ss, us) \<Rightarrow> Some (((hh * 60 + mm) * 60 + ss) * 1000000 + us)))"

definition py_fromisoformat :: "string \<Rightarrow> datetime option" where
  "py_fromisoformat s =
     (if \<not> is_ascii s \<or> length s < 10 \<or> length s = 11 then None
      else
        (case digits_at 0 4 s of None \<Rightarrow> None | Some y \<Rightarrow>
        if \<not> char_at 4 s (CHR ''-'') then None else
        (case digits_at 5 2 s of None \<Rightarrow> None | Some m \<Rightarrow>
        if \<not> char_at 7 s (CHR ''-'') then None else
        (case digits_at 8 2 s of None \<Rightarrow> None | Some d \<Rightarrow>
        if length s = 10 then mk_datetime y m d 0 0 0 0 None
        else
          (let tstr = drop 11 s;
               timestr = takeWhile (\<lambda>c. c \<notin> set ''+-'') tstr;
               tzpart = dropWhile (\<lambda>c. c \<notin> set ''+-'') tstr
           in
             (case parse_hh_mm_ss_ff timestr of None \<Rightarrow> None | Some (hh, mm, ss, us) \<Rightarrow>
             (case tzpart of
                [] \<Rightarrow> mk_datetime y m d hh mm ss us None
              | sign # tzstr \<Rightarrow>
                  (case parse_offset tzstr of
                     None \<Rightarrow> None
                   | Some off \<Rightarrow>
                       mk_datetime y m d hh mm ss us
                         (Some (if sign = CHR ''-'' then - int off else int off))))))))))"

subsection \<open>\<open>json.loads\<close>\<close>

text \<open>
  The decoder of the \<open>json\<close> module with its default settings: the JSON grammar, and
  the literals \<open>NaN\<close>, \<open>Infinity\<close> and \<open>-Infinity\<close>. A \<open>float\<close> is kept as the
  text of its literal, a \<open>str\<close> as its UTF-8 encoding, a \<open>dict\<close> as the list of its
  items in insertion order.
\<close>

definition is_ws :: "char \<Rightarrow> bool" where
  "is_ws c = (c = CHR '' '' \<or> c = CHR 0x09 \<or> c = CHR 0x0A \<or> c = CHR 0x0D)"

definition skip_ws :: "string \<Rightarrow> string" where
  "skip_ws s = dropWhile is_ws s"

definition hex_val :: "char \<Rightarrow> nat option" where
  "hex_val c =
     (if is_digit c then Some (digit_val c)
      else if c \<in> set ''abcdef'' then Some (of_char c - 87)
      else if c \<in> set ''ABCDEF'' then Some (of_char c - 55)
      else None)"

text \<open>The value of the four hexadecimal digits a string starts with.\<close>

definition hex4 :: "string \<Rightarrow> nat option" where
  "hex4 s =
     (case map hex_val (take 4 s) of
        [Some a, Some b, Some c, Some d] \<Rightarrow> Some (((a * 16 + b) * 16 + c) * 16 + d)
      | _ \<Rightarrow> None)"

definition utf8_encode :: "nat \<Rightarrow> string" where
  "utf8_encode cp =
     (if cp < 0x80 then [char_of cp]
      else if cp < 0x800 then [char_of (0xC0 + cp div 64), char_of (0x80 + cp mod 64)]
      else if cp < 0x10000 then
        [char_of (0xE0 + cp div 4096), char_of (0x80 + cp div 64 mod 64), char_of (0x80 + cp mod 64)]
      else
        [char_of (0xF0 + cp div 262144), char_of (0x80 + cp div 4096 mod 64),
         char_of (0x80 + cp div 64 mod 64), char_of (0x80 + cp mod 64)])"

definition unescape :: "char \<Rightarrow> char option" where
  "unescape e =
     (if e = CHR 0x22 \<or> e = CHR 0x5C \<or> e = CHR ''/'' then Some e
      else if e = CHR ''b'' then Some (CHR 0x08)
      else if e = CHR ''f'' then Some (CHR 0x0C)
      else if e = CHR ''n'' then Some (CHR 0x0A)
      else if e = CHR ''r'' then Some (CHR 0x0D)
      else if e = CHR ''t'' then Some (CHR 0x09)
      else None)"

text \<open>
  A string after its opening quote: the text up to the closing quote, with the escapes
  replaced, and what follows. A control character in a string is an error.
\<close>

fun scan_string :: "string \<Rightarrow> string \<Rightarrow> (string \<times> string) option" where
  "scan_string acc [] = None"
| "scan_string acc (c # cs) =
     (if c = CHR 0x22 then Some (acc, cs)
      else if (of_char c :: nat) < 32 then None
      else if c = CHR 0x5C then
        (case cs of
           [] \<Rightarrow> None
         | e # r \<Rightarrow>
             if e = CHR ''u'' then
               (case hex4 r of
                  None \<Rightarrow> None
                | Some u \<Rightarrow>
                    if 0xD800 \<le> u \<and> u \<le> 0xDBFF \<and> take 2 (drop 4 r) = [CHR 0x5C, CHR ''u''] then
                      (case hex4 (drop 6 r) of
                         None \<Rightarrow> None
                       | Some u2 \<Rightarrow>
                           if 0xDC00 \<le> u2 \<and> u2 \<le> 0xDFFF
                           then scan_string
                                  (acc @ utf8_encode (0x10000 + (u - 0xD800) * 1024 + (u2 - 0xDC00)))
                                  (drop 10 r)
                           else scan_string (acc @ utf8_encode u) (drop 4 r))
                    else scan_string (acc @ utf8_encode u) (drop 4 r))
             else
               (case unescape e of
                  None \<Rightarrow> None
                | Some ch \<Rightarrow> scan_string (acc @ [ch]) r))
      else scan_string (acc @ [c]) cs)"

text \<open>
  A number: an optional minus, \<open>0\<close> or a digit from 1 to 9 and more digits, an optional
  fraction and an optional exponent. Without fraction and exponent it is an \<open>int\<close>.
\<close>

definition exp_part :: "string \<Rightarrow> string" where
  "exp_part r =
     (case r of
        [] \<Rightarrow> []
      | e # r' \<Rightarrow>
          if e \<in> set ''eE'' then
            (let sg = (case r' of [] \<Rightarrow> [] | x # _ \<Rightarrow> if x \<in> set ''+-'' then [x] else []);
                 ds = takeWhile is_digit (drop (length sg) r')
             in if ds = [] then [] else e # sg @ ds)
          else [])"

definition frac_part :: "string \<Rightarrow> string" where
  "frac_part r =
     (case r of
        p # q # _ \<Rightarrow> if p = CHR ''.'' \<and> is_digit q then p # takeWhile is_digit (tl r) else []
      | _ \<Rightarrow> [])"

definition scan_number :: "string \<Rightarrow> (json \<times> string) option" where
  "scan_number s =
     (let neg = (take 1 s = ''-'');
          body = (if neg then drop 1 s else s)
      in case body of
           [] \<Rightarrow> None
         | d # ds \<Rightarrow>
             if \<not> is_digit d then None
             else
               (let ip = (if d = CHR ''0'' then [d] else d # takeWhile is_digit ds);
                    r1 = drop (length ip) body;
                    fp = frac_part r1;
                    r2 = drop (length fp) r1;
                    ep = exp_part r2;
                    r3 = drop (length ep) r2
                in if fp = [] \<and> ep = []
                   then Some (JInt (if neg then - int (digits_val ip) else int (digits_val ip)), r3)
                   else Some (JFloat ((if neg then ''-'' else []) @ ip @ fp @ ep), r3)))"

text \<open>Storing an item in a \<open>dict\<close>: a key that is present keeps its place.\<close>

fun dict_set :: "string \<Rightarrow> json \<Rightarrow> (string \<times> json) list \<Rightarrow> (string \<times> json) list" where
  "dict_set k v [] = [(k, v)]"
| "dict_set k v ((k', v') # ps) = (if k = k' then (k', v) # ps else (k', v') # dict_set k v ps)"

text \<open>
  A value at the start of a text, and the rest of the text. The first argument bounds the
  number of nested calls; \<open>py_json_loads\<close> gives it twice the length of the text, which
  the calls cannot use up, since every second one consumes a character.
\<close>

fun parse_value :: "nat \<Rightarrow> string \<Rightarrow> (json \<times> string) option"
and parse_array :: "nat \<Rightarrow> json list \<Rightarrow> string \<Rightarrow> (json \<times> string) option"
and parse_object :: "nat \<Rightarrow> (string \<times> json) list \<Rightarrow> string \<Rightarrow> (json \<times> string) option" where
  "parse_value 0 s = None"
| "parse_value (Suc n) s =
     (case s of
        [] \<Rightarrow> None
      | c # cs \<Rightarrow>
          if c = CHR 0x22 then
            (case scan_string [] cs of None \<Rightarrow> None | Some (str, r) \<Rightarrow> Some (JStr str, r))
          else if c = CHR ''{'' then
            (case skip_ws cs of
               [] \<Rightarrow> None
             | d # r \<Rightarrow> if d = CHR ''}'' then Some (JObj [], r) else parse_object n [] (d # r))
          else if c = CHR ''['' then
            (case skip_ws cs of
               [] \<Rightarrow> None
             | d # r \<Rightarrow> if d = CHR '']'' then Some (JArr [], r) else parse_array n [] (d # r))
          else if take 4 s = ''null'' then Some (JNull, drop 4 s)
          else if take 4 s = ''true'' then Some (JBool True, drop 4 s)
          else if take 5 s = ''false'' then Some (JBool False, drop 5 s)
          else
            (case scan_number s of
               Some x \<Rightarrow> Some x
             | None \<Rightarrow>
                 if take 3 s = ''NaN'' then Some (JFloat ''NaN'', drop 3 s)
                 else if take 8 s = ''Infinity'' then Some (JFloat ''Infinity'', drop 8 s)
                 else if take 9 s = ''-Infinity'' then Some (JFloat ''-Infinity'', drop 9 s)
                 else None))"
| "parse_array 0 acc s = None"
| "parse_array (Suc n) acc s =
     (case parse_value n s of
        None \<Rightarrow> None
      | Some (v, r) \<Rightarrow>
          (case skip_ws r of
             [] \<Rightarrow> None
           | d # r' \<Rightarrow>
               if d = CHR '']'' then Some (JArr (acc @ [v]), r')
               else if d = CHR '','' then parse_array n (acc @ [v]) (skip_ws r')
               else None))"
| "parse_object 0 acc s = None"
| "parse_object (Suc n) acc s =
     (case s of
        [] \<Rightarrow> None
      | q # cs \<Rightarrow>
          if q \<noteq> CHR 0x22 then None
          else
            (case scan_string [] cs of
               None \<Rightarrow> None
             | Some (key, r) \<Rightarrow>
                 (case skip_ws r of
                    [] \<Rightarrow> None
                  | col # r1 \<Rightarrow>
                      if col \<noteq> CHR '':'' then None
                      else
                        (case parse_value n (skip_ws r1) of
                           None \<Rightarrow> None
                         | Some (v, r2) \<Rightarrow>
                             (case skip_ws r2 of
                                [] \<Rightarrow> None
                              | d # r3 \<Rightarrow>
                                  if d = CHR ''}'' then Some (JObj (dict_set key v acc), r3)
                                  else if d = CHR '','' then
                                    parse_object n (dict_set key v acc) (skip_ws r3)
                                  else None)))))"

text \<open>
  \<open>json.loads(b)\<close>: white space, one value, white space, and nothing else. The model
  answers \<open>None\<close> for a text with a byte outside ASCII or a NUL byte (see above).
\<close>

definition py_json_loads :: "bytes \<Rightarrow> error + json" where
  "py_json_loads b =
     (if \<not> is_ascii b \<or> CHR 0x00 \<in> set b then Inl (library_error ''json.loads'')
      else
        (case parse_value (2 * length b + 2) (skip_ws b) of
           None \<Rightarrow> Inl (library_error ''json.loads'')
         | Some (v, r) \<Rightarrow> if skip_ws r = [] then Inr v else Inl (library_error ''json.loads'')))"

subsection \<open>A registry, the cache paths and a client\<close>

text \<open>
  Modelled from the spec: the registry of \<open>consts.py\<close>, which is not among the
  sources. The specification asks for a set of known exchanges and a static mapping from
  each exchange to its channel names; this sample has two exchanges.
\<close>

definition sample_EXCHANGES :: "string list" where
  "sample_EXCHANGES = [''bitmex'', ''deribit'']"

definition sample_EXCHANGE_CHANNELS_INFO :: "string \<rightharpoonup> string list" where
  "sample_EXCHANGE_CHANNELS_INFO =
     map_of [(''bitmex'', [''trade'', ''orderBookL2'', ''quote'']),
             (''deribit'', [''trades'', ''book''])]"

function show_nat :: "nat \<Rightarrow> string" where
  "show_nat n = (if n < 10 then [char_of (48 + n)] else show_nat (n div 10) @ [char_of (48 + n mod 10)])"
  by pat_completeness auto
termination
  by (relation "measure id") auto

definition show_symbols :: "symbols_arg \<Rightarrow> string" where
  "show_symbols sy =
     (case sy of
        SymbolsNone \<Rightarrow> ''None''
      | SymbolsOther \<Rightarrow> ''?''
      | SymbolsList xs \<Rightarrow>
          ''['' @ join '','' (map (\<lambda>x. case x of SymStr t \<Rightarrow> t | SymOther \<Rightarrow> ''?'') xs) @ '']'')"

definition show_filters :: "filters_arg \<Rightarrow> string" where
  "show_filters fa =
     (case fa of
        FiltersNone \<Rightarrow> ''None''
      | FiltersOther \<Rightarrow> ''?''
      | FiltersList fs \<Rightarrow>
          ''['' @ join '';'' (map (\<lambda>c. name c @ ''='' @ show_symbols (symbols c)) fs) @ '']'')"

text \<open>
  Modelled from the spec: \<open>get_slice_cache_path\<close> of \<open>handy.py\<close>, which is not among
  the sources. The specification asks for a pure function whose path encodes the
  exchange, the slice start at minute granularity and a stable serialization of the
  filters; this one writes the three, in that order, under the cache directory.
\<close>

definition sample_slice_cache_path :: "string \<Rightarrow> string \<Rightarrow> datetime \<Rightarrow> filters_arg \<Rightarrow> string" where
  "sample_slice_cache_path dir ex d fa =
     dir @ ''/'' @ ex @ ''/'' @ show_nat (micros d div 60000000) @ ''-'' @ show_filters fa @ ''.json.gz''"

text \<open>The sample registry and cache paths, with the three reference parsers.\<close>

definition py_env :: imported where
  "py_env =
     \<lparr> EXCHANGES = sample_EXCHANGES,
       EXCHANGE_CHANNELS_INFO = sample_EXCHANGE_CHANNELS_INFO,
       get_slice_cache_path = sample_slice_cache_path,
       fromisoformat = py_fromisoformat,
       strptime = py_strptime,
       json_loads = py_json_loads \<rparr>"

text \<open>
  The client that \<open>TardisClient()\<close> builds with the default arguments, where the
  temporary directory of the system is \<open>/tmp\<close>.
\<close>

definition client :: TardisClient where
  "client = \<lparr> endpoint = ''https://tardis.dev/api'', cache_dir = ''/tmp/.tardis-cache'', api_key = [] \<rparr>"

text \<open>A cache that holds the given files from the start and never changes.\<close>

definition cached :: "(string \<times> bytes) list \<Rightarrow> world" where
  "cached files = (\<lambda>t. map_of files)"

text \<open>
  A cache that another process fills while the call runs: each file is given with the
  tick from which it is there.
\<close>

definition arriving :: "(nat \<times> string \<times> bytes) list \<Rightarrow> world" where
  "arriving files = (\<lambda>t. map_of (map snd (filter (\<lambda>x. fst x \<le> t) files)))"

section \<open>The replay loop as the specification describes it\<close>

text \<open>
  The definitions of this section follow the words of the specification, section 4.5, to
  be compared with \<open>replay\<close>: the cursor starts at \<open>from_date\<close> and moves in steps of 60
  seconds; the slices fetched are those whose start is before \<open>to_date\<close>; each slice
  contributes its records, in file order.
\<close>

text \<open>The cursor after \<open>i\<close> steps of 60 seconds.\<close>

definition cursor :: "datetime \<Rightarrow> nat \<Rightarrow> datetime" where
  "cursor f i = f\<lparr>micros := micros f + i * 60000000\<rparr>"

text \<open>The number of slice starts \<open>f\<close>, \<open>f + 60 s\<close>, ... that are before \<open>t\<close>.\<close>

definition slice_count :: "datetime \<Rightarrow> datetime \<Rightarrow> nat" where
  "slice_count f t = nat ((dt_utc t - dt_utc f + 59999999) div 60000000)"

definition slice_path :: "imported \<Rightarrow> TardisClient \<Rightarrow> request \<Rightarrow> datetime \<Rightarrow> string" where
  "slice_path env self rq c = get_slice_cache_path env (cache_dir self) (exchange rq) c (filters rq)"

text \<open>Every line of the content gives a record.\<close>

definition decodable :: "imported \<Rightarrow> bool \<Rightarrow> bytes \<Rightarrow> bool" where
  "decodable env dec content =
     list_all (\<lambda>line. case decode_line env dec line of Inl _ \<Rightarrow> False | Inr _ \<Rightarrow> True)
       (file_lines content)"

text \<open>The records of the lines of a content, in file order.\<close>

definition records_of :: "imported \<Rightarrow> bool \<Rightarrow> bytes \<Rightarrow> Response list" where
  "records_of env dec content =
     List.map_filter (\<lambda>line. case decode_line env dec line of Inl _ \<Rightarrow> None | Inr r \<Rightarrow> Some r)
       (file_lines content)"

text \<open>
  The slice that starts at \<open>c\<close> is among the files and every line of it gives a record.
\<close>

definition slice_ready ::
  "imported \<Rightarrow> TardisClient \<Rightarrow> (string \<rightharpoonup> bytes) \<Rightarrow> request \<Rightarrow> datetime \<Rightarrow> bool" where
  "slice_ready env self files rq c =
     (case files (slice_path env self rq c) of
        None \<Rightarrow> False
      | Some content \<Rightarrow> decodable env (decode_response rq) content)"

text \<open>
  The wait for a file (section 4.3): it is looked for from tick \<open>t0\<close> on, is absent at
  every tick from \<open>t0\<close> up to \<open>t1\<close>, and is there at tick \<open>t1\<close>. A file that is in
  the cache when it is first looked for has \<open>t1 = t0\<close>.
\<close>

definition first_seen :: "world \<Rightarrow> string \<Rightarrow> nat \<Rightarrow> nat \<Rightarrow> bool" where
  "first_seen w p t0 t1 = (t0 \<le> t1 \<and> list_all (\<lambda>tick. w tick p = None) [t0..<t1] \<and> w t1 p \<noteq> None)"

text \<open>
  The tick at which the wait for slice \<open>i\<close> starts, when the call starts at tick \<open>t0\<close>
  and slice \<open>j\<close> is first seen at tick \<open>a j\<close>: the slices are read without a sleep,
  so the wait for a slice starts at the tick at which the slice before it was seen.
\<close>

definition wait_start :: "nat \<Rightarrow> (nat \<Rightarrow> nat) \<Rightarrow> nat \<Rightarrow> nat" where
  "wait_start t0 a i = (case i of 0 \<Rightarrow> t0 | Suc j \<Rightarrow> a j)"

text \<open>
  The events of a wait that ends after \<open>d\<close> sleeps: \<open>d\<close> times the file is looked
  for, not found, and the call sleeps; then it is looked for and found.
\<close>

definition waiting_events :: "string \<Rightarrow> nat \<Rightarrow> event list" where
  "waiting_events p d =
     concat (replicate d [Debug (GettingSlice p), IsFile p, Debug (WaitingForSlice p), Sleep])
     @ [Debug (GettingSlice p), IsFile p]"

text \<open>
  The events of one slice that is found after \<open>d\<close> sleeps, \<open>files\<close> being the cache at
  the tick it is found: the wait, the opening of the file, every record, and the log
  record with the number of its lines.
\<close>

definition slice_events ::
  "imported \<Rightarrow> TardisClient \<Rightarrow> (string \<rightharpoonup> bytes) \<Rightarrow> request \<Rightarrow> datetime \<Rightarrow> nat \<Rightarrow> event list" where
  "slice_events env self files rq c d =
     (let p = slice_path env self rq c
      in case files p of
           None \<Rightarrow> []
         | Some content \<Rightarrow>
             waiting_events p d
             @ [GzipOpen p]
             @ map Yield (records_of env (decode_response rq) content)
             @ [Debug (ProcessedSlice p (length (file_lines content)))])"

section \<open>Scenarios\<close>

text \<open>The state in which \<open>replay\<close> calls the validator.\<close>

definition state_of :: "request \<Rightarrow> call_state" where
  "state_of rq = \<lparr> req = rq, trace = [] \<rparr>"

text \<open>
  The end-to-end scenario of the specification: two minutes of \<open>bitmex\<close>, no filters, and
  a cache that holds the two slices, one of three records and one of none. A line of a
  slice is a timestamp of 28 bytes, a delimiter and the JSON message.
\<close>

definition scenario_request :: request where
  "scenario_request =
     \<lparr> exchange = ''bitmex'', from_date = Some ''2021-01-01T00:00:00'',
       to_date = Some ''2021-01-01T00:02:00'', filters = FiltersList [], decode_response = True \<rparr>"

definition scenario_world :: world where
  \<open>scenario_world = cached
     [(''/tmp/.tardis-cache/bitmex/1062417600-[].json.gz'',
       ''2021-01-01T00:00:01.0000000Z {"a":1}\<newline>2021-01-01T00:00:02.5000000Z {"a":2}\<newline>2021-01-01T00:00:59.9999999Z {"a":3}\<newline>''),
      (''/tmp/.tardis-cache/bitmex/1062417601-[].json.gz'', [])]\<close>

text \<open>Requests for the first minute and for the first three minutes.\<close>

definition minute_request :: request where
  "minute_request = scenario_request\<lparr>to_date := Some ''2021-01-01T00:01:00''\<rparr>"

definition three_minute_request :: request where
  "three_minute_request = scenario_request\<lparr>to_date := Some ''2021-01-01T00:03:00''\<rparr>"

text \<open>The line of the decoding round trip of the specification, as the only slice.\<close>

definition claim_line_world :: world where
  \<open>claim_line_world = cached
     [(''/tmp/.tardis-cache/bitmex/1062417600-[].json.gz'',
       ''2021-01-01T00:00:00.123456 {"a":1}\<newline>'')]\<close>

text \<open>The same record in the format the offsets fit: the message starts at offset 29.\<close>

definition format_line_world :: world where
  \<open>format_line_world = cached
     [(''/tmp/.tardis-cache/bitmex/1062417600-[].json.gz'',
       ''2021-01-01T00:00:00.1234560Z {"a":1}\<newline>'')]\<close>

text \<open>A slice that starts with an empty line.\<close>

definition empty_line_world :: world where
  \<open>empty_line_world = cached
     [(''/tmp/.tardis-cache/bitmex/1062417600-[].json.gz'',
       ''\<newline>2021-01-01T00:00:00.1234560Z {"a":1}\<newline>'')]\<close>

text \<open>Three slices; the second line of the second slice has no timestamp.\<close>

definition broken_world :: world where
  \<open>broken_world = cached
     [(''/tmp/.tardis-cache/bitmex/1062417600-[].json.gz'',
       ''2021-01-01T00:00:01.0000000Z {"a":1}\<newline>''),
      (''/tmp/.tardis-cache/bitmex/1062417601-[].json.gz'',
       ''2021-01-01T00:01:01.0000000Z {"a":2}\<newline>not a timestamp, not a message\<newline>2021-01-01T00:01:03.0000000Z {"a":3}\<newline>''),
      (''/tmp/.tardis-cache/bitmex/1062417602-[].json.gz'',
       ''2021-01-01T00:02:01.0000000Z {"a":4}\<newline>'')]\<close>

text \<open>The last minute of the calendar, with its slice in the cache.\<close>

definition last_minute_request :: request where
  "last_minute_request =
     scenario_request\<lparr>from_date := Some ''9999-12-31T23:59:00'', to_date := Some ''9999-12-31T23:59:30''\<rparr>"

definition last_minute_world :: world where
  "last_minute_world = cached [(''/tmp/.tardis-cache/bitmex/5258964959-[].json.gz'', [])]"

text \<open>A request with an exchange that is not known, and one with two channel filters.\<close>

definition unknown_exchange_request :: request where
  "unknown_exchange_request = scenario_request\<lparr>exchange := ''kraken''\<rparr>"

definition channel_request :: request where
  "channel_request =
     scenario_request\<lparr>filters :=
       FiltersList [\<lparr>name = ''trade'', symbols = SymbolsList [SymStr ''XBTUSD'']\<rparr>,
                    \<lparr>name = ''quote'', symbols = SymbolsNone\<rparr>]\<rparr>"

text \<open>
  The scenario with a cache that is filled while the call runs: the first slice is there
  after one sleep, the second after two more.
\<close>

definition late_scenario_world :: world where
  \<open>late_scenario_world = arriving
     [(1, ''/tmp/.tardis-cache/bitmex/1062417600-[].json.gz'',
       ''2021-01-01T00:00:01.0000000Z {"a":1}\<newline>2021-01-01T00:00:02.5000000Z {"a":2}\<newline>2021-01-01T00:00:59.9999999Z {"a":3}\<newline>''),
      (3, ''/tmp/.tardis-cache/bitmex/1062417601-[].json.gz'', [])]\<close>

text \<open>The ticks at which the two slices of that cache are first seen.\<close>

definition late_scenario_ticks :: "nat \<Rightarrow> nat" where
  "late_scenario_ticks i = (if i = 0 then 1 else 3)"

text \<open>
  Three slices, of which the second and the third arrive after two sleeps; the message of
  the second line of the second slice is cut short.
\<close>

definition late_broken_world :: world where
  \<open>late_broken_world = arriving
     [(0, ''/tmp/.tardis-cache/bitmex/1062417600-[].json.gz'',
       ''2021-01-01T00:00:01.0000000Z {"a":1}\<newline>''),
      (2, ''/tmp/.tardis-cache/bitmex/1062417601-[].json.gz'',
       ''2021-01-01T00:01:01.0000000Z {"a":2}\<newline>2021-01-01T00:01:02.0000000Z {"a":\<newline>2021-01-01T00:01:03.0000000Z {"a":3}\<newline>''),
      (2, ''/tmp/.tardis-cache/bitmex/1062417602-[].json.gz'',
       ''2021-01-01T00:02:01.0000000Z {"a":4}\<newline>'')]\<close>

definition late_broken_ticks :: "nat \<Rightarrow> nat" where
  "late_broken_ticks i = (if i = 0 then 0 else 2)"

text \<open>A request whose \<open>from_date\<close> is naive and later than its \<open>to_date\<close>, which is aware.\<close>

definition mixed_dates_request :: request where
  "mixed_dates_request =
     scenario_request\<lparr>from_date := Some ''2022-01-01T00:00:00'',
                       to_date := Some ''2021-01-01T00:00:00+00:00''\<rparr>"

text \<open>The number of sleeps among the events of a call.\<close>

definition sleeps :: "(event list \<times> outcome) option \<Rightarrow> nat option" where
  "sleeps run = (case run of None \<Rightarrow> None | Some (evs, out) \<Rightarrow> Some (length (filter (\<lambda>e. e = Sleep) evs)))"

text \<open>
  What a caller and the file system see of a call: the records it yielded, the files it
  opened, and how it ended.
\<close>

fun yielded :: "event list \<Rightarrow> Response list" where
  "yielded [] = []"
| "yielded (Yield r # evs) = r # yielded evs"
| "yielded (_ # evs) = yielded evs"

fun opened :: "event list \<Rightarrow> string list" where
  "opened [] = []"
| "opened (GzipOpen p # evs) = p # opened evs"
| "opened (_ # evs) = opened evs"

definition observed :: "(event list \<times> outcome) option \<Rightarrow> (Response list \<times> string list \<times> outcome) option" where
  "observed run = (case run of None \<Rightarrow> None | Some (evs, out) \<Rightarrow> Some (yielded evs, opened evs, out))"

section \<open>Lemmas\<close>

subsection \<open>The validator\<close>

lemma validate_filters_unchanged: "snd (validate_filters env fs s) = s"
  by (induction fs) (auto split: option.splits symbols_arg.splits)

lemma validate_filters_arg_unchanged: "snd (validate_filters_arg env s) = s"
  by (simp add: validate_filters_arg_def validate_filters_unchanged split: filters_arg.splits)

lemma validate_payload_unchanged: "snd (validate_payload env s) = s"
  by (simp add: validate_payload_def validate_filters_arg_unchanged split: sum.splits bool.splits)

lemma validate_filters_no_KeyError:
  "EXCHANGE_CHANNELS_INFO env (exchange (req s)) \<noteq> None \<Longrightarrow>
   fst (validate_filters env fs s) \<noteq> Inl (KeyError k)"
  by (induction fs) (auto simp: invalid_symbols_def split: option.splits symbols_arg.splits)

lemma try_parse_no_KeyError: "try_parse_as_iso_date env x \<noteq> Inl (KeyError k)"
  by (auto simp: try_parse_as_iso_date_def parse_date_def library_error_def
           split: option.splits sum.splits error.splits)

lemma valid_dates:
  assumes "fst (validate_payload env s) = Inr ()"
    and "parse_date env (from_date (req s)) = Inr f"
    and "parse_date env (to_date (req s)) = Inr t"
  shows "dt_comparable f t \<and> dt_utc f < dt_utc t"
  using assms
  by (auto simp: validate_payload_def dt_ge_def split: if_splits sum.splits bool.splits)

text \<open>A request that passes the validator has two dates that parse.\<close>

lemma valid_parses:
  assumes "fst (validate_payload env s) = Inr ()"
  shows "\<exists>f t. parse_date env (from_date (req s)) = Inr f \<and> parse_date env (to_date (req s)) = Inr t"
  using assms
  by (auto simp: validate_payload_def split: if_splits sum.splits bool.splits)

text \<open>Comparing a naive date with an aware one: the validator raises \<open>TypeError\<close>.\<close>

lemma mixed_dates_raise:
  assumes "exchange (req s) \<in> set (EXCHANGES env)"
    and "from_date (req s) = Some a" and "to_date (req s) = Some b"
    and "fromisoformat env a = Some d1" and "fromisoformat env b = Some d2"
    and "\<not> dt_comparable d1 d2"
  shows "validate_payload env s =
           (Inl (TypeError ''can't compare offset-naive and offset-aware datetimes''), s)"
  using assms
  by (simp add: validate_payload_def try_parse_as_iso_date_def parse_date_def dt_ge_def)

subsection \<open>The lines of a file\<close>

text \<open>No line of a file is empty: the test \<open>len(line) == 0\<close> never holds.\<close>

lemma file_lines_nonempty: "[] \<notin> set (file_lines content)"
  by (induction content) (auto split: list.splits)

lemma concat_file_lines: "concat (file_lines content) = content"
  by (induction content) (auto split: list.splits)

lemma read_lines_decoded:
  "[] \<notin> set ls \<Longrightarrow> map (decode_line env dec) ls = map Inr rs \<Longrightarrow>
   read_lines env dec ls n = (map Yield rs, n + length ls, None)"
proof (induction ls arbitrary: rs n)
  case Nil
  then show ?case by simp
next
  case (Cons l ls)
  from Cons.prems(2) obtain r rs' where rs: "rs = r # rs'" and r: "decode_line env dec l = Inr r"
    and rest: "map (decode_line env dec) ls = map Inr rs'"
    by (cases rs) auto
  from Cons.prems(1) have ne: "l \<noteq> []" and ne': "[] \<notin> set ls" by auto
  from Cons.IH[OF ne' rest, of "n + 1"] ne r rs show ?case by simp
qed

lemma read_lines_failure:
  "[] \<notin> set pre \<Longrightarrow> line \<noteq> [] \<Longrightarrow> map (decode_line env dec) pre = map Inr rs \<Longrightarrow>
   decode_line env dec line = Inl e \<Longrightarrow>
   read_lines env dec (pre @ line # post) n = (map Yield rs, n + length pre + 1, Some e)"
proof (induction pre arbitrary: rs n)
  case Nil
  then show ?case by simp
next
  case (Cons l ls)
  from Cons.prems(3) obtain r rs' where rs: "rs = r # rs'" and r: "decode_line env dec l = Inr r"
    and rest: "map (decode_line env dec) ls = map Inr rs'"
    by (cases rs) auto
  from Cons.prems(1) have ne: "l \<noteq> []" and ne': "[] \<notin> set ls" by auto
  from Cons.IH[OF ne' Cons.prems(2) rest Cons.prems(4), of "n + 1"] ne r rs show ?case by simp
qed

lemma decode_line_raw:
  "decode_line env False line
     = Inr \<lparr> local_timestamp = Bytes (take 28 line), message = Bytes (drop 29 line) \<rparr>"
  by (simp add: decode_line_def slice_def slice_from_def DATE_MESSAGE_SPLIT_INDEX_def)

lemma read_lines_raw:
  "read_lines env False (file_lines content) n
     = (map (\<lambda>line. Yield \<lparr> local_timestamp = Bytes (take 28 line), message = Bytes (drop 29 line) \<rparr>)
            (file_lines content),
        n + length (file_lines content), None)"
proof -
  have "map (decode_line env False) (file_lines content)
          = map Inr (map (\<lambda>line. \<lparr> local_timestamp = Bytes (take 28 line),
                                      message = Bytes (drop 29 line) \<rparr>) (file_lines content))"
    by (simp add: decode_line_raw)
  from read_lines_decoded[OF file_lines_nonempty this, of n] show ?thesis
    by (simp add: comp_def)
qed

lemma all_decoded:
  "list_all (\<lambda>line. case decode_line env dec line of Inl _ \<Rightarrow> False | Inr _ \<Rightarrow> True) ls \<Longrightarrow>
   map (decode_line env dec) ls
     = map Inr (List.map_filter (\<lambda>line. case decode_line env dec line of Inl _ \<Rightarrow> None | Inr r \<Rightarrow> Some r) ls)"
  by (induction ls) (auto simp: List.map_filter_simps split: sum.splits)

text \<open>Where every line gives a record, the records are those of all the lines, in order.\<close>

lemma decodable_records:
  "decodable env dec content \<Longrightarrow>
   map (decode_line env dec) (file_lines content) = map Inr (records_of env dec content)"
  unfolding decodable_def records_of_def by (rule all_decoded)

text \<open>With \<open>decode_response\<close> false every line gives a record.\<close>

lemma decodable_raw: "decodable env False content"
  by (simp add: decodable_def decode_line_def list_all_iff)

lemma read_lines_decodable:
  "decodable env dec content \<Longrightarrow>
   read_lines env dec (file_lines content) 0
     = (map Yield (records_of env dec content), length (file_lines content), None)"
  using read_lines_decoded[OF file_lines_nonempty decodable_records, of env dec content 0] by simp

subsection \<open>Waiting\<close>

lemma wait_present:
  "w t (slice_path env self rq c) \<noteq> None \<Longrightarrow>
   wait_for_slice env self w rq c t acc
     = Some (slice_path env self rq c, t,
             acc @ [Debug (GettingSlice (slice_path env self rq c)), IsFile (slice_path env self rq c)])"
  by (subst wait_for_slice.simps) (simp add: slice_path_def Let_def)

lemma wait_for_slice_Some:
  assumes "wait_for_slice env self w rq c t acc = Some y"
  shows "\<exists>t' \<ge> t. w t' (slice_path env self rq c) \<noteq> None"
proof (rule wait_for_slice.raw_induct
         [where P = "\<lambda>env self w rq c t acc y. \<exists>t' \<ge> t. w t' (slice_path env self rq c) \<noteq> None",
          OF _ assms])
  fix wait env self w rq c t acc and y :: "string \<times> nat \<times> event list"
  assume IH: "\<And>env self w rq c t acc y. wait env self w rq c t acc = Some y \<Longrightarrow>
                \<exists>t' \<ge> t. w t' (slice_path env self rq c) \<noteq> None"
    and body: "(let path_to_check =
                      get_slice_cache_path env (cache_dir self) (exchange rq) c (filters rq)
                in if w t path_to_check \<noteq> None
                   then Some (path_to_check, t,
                              acc @ [Debug (GettingSlice path_to_check), IsFile path_to_check])
                   else wait env self w rq c (Suc t)
                          (acc @ [Debug (GettingSlice path_to_check), IsFile path_to_check,
                                  Debug (WaitingForSlice path_to_check), Sleep])) = Some y"
  show "\<exists>t' \<ge> t. w t' (slice_path env self rq c) \<noteq> None"
  proof (cases "w t (slice_path env self rq c) \<noteq> None")
    case True
    then show ?thesis by blast
  next
    case False
    with body obtain acc' where "wait env self w rq c (Suc t) acc' = Some y"
      by (auto simp: slice_path_def Let_def split: if_splits)
    from IH[OF this] obtain t' where "t' \<ge> Suc t" "w t' (slice_path env self rq c) \<noteq> None"
      by blast
    then show ?thesis by (metis Suc_leD)
  qed
qed

text \<open>A file that never appears is waited for without end.\<close>

lemma wait_forever:
  "\<forall>t' \<ge> t. w t' (slice_path env self rq c) = None \<Longrightarrow>
   wait_for_slice env self w rq c t acc = None"
  using wait_for_slice_Some[of env self w rq c t acc]
  by (cases "wait_for_slice env self w rq c t acc") auto

text \<open>A file that appears after \<open>d\<close> sleeps is found at that tick.\<close>

lemma wait_after:
  "\<forall>i < d. w (t + i) (slice_path env self rq c) = None \<Longrightarrow>
   w (t + d) (slice_path env self rq c) \<noteq> None \<Longrightarrow>
   wait_for_slice env self w rq c t acc
     = Some (slice_path env self rq c, t + d, acc @ waiting_events (slice_path env self rq c) d)"
proof (induction d arbitrary: t acc)
  case 0
  then show ?case by (simp add: wait_present waiting_events_def)
next
  case (Suc d)
  let ?p = "slice_path env self rq c"
  from Suc.prems(1) have now: "w t ?p = None" by (metis add.right_neutral zero_less_Suc)
  have later: "\<forall>i < d. w (Suc t + i) ?p = None"
    using Suc.prems(1) by (metis Suc_less_eq add_Suc_right add_Suc)
  have found: "w (Suc t + d) ?p \<noteq> None"
    using Suc.prems(2) by simp
  from Suc.IH[OF later found,
      of "acc @ [Debug (GettingSlice ?p), IsFile ?p, Debug (WaitingForSlice ?p), Sleep]"]
  have "wait_for_slice env self w rq c (Suc t)
          (acc @ [Debug (GettingSlice ?p), IsFile ?p, Debug (WaitingForSlice ?p), Sleep])
          = Some (?p, Suc t + d,
                  (acc @ [Debug (GettingSlice ?p), IsFile ?p, Debug (WaitingForSlice ?p), Sleep])
                  @ waiting_events ?p d)" .
  with now show ?case
    by (subst wait_for_slice.simps) (simp add: slice_path_def Let_def waiting_events_def)
qed

lemma wait_first_seen:
  assumes "first_seen w (slice_path env self rq c) t t1"
  shows "wait_for_slice env self w rq c t acc
           = Some (slice_path env self rq c, t1,
                   acc @ waiting_events (slice_path env self rq c) (t1 - t))"
proof -
  let ?p = "slice_path env self rq c"
  from assms have le: "t \<le> t1"
    and absent: "\<forall>i < t1 - t. w (t + i) ?p = None"
    and present: "w (t + (t1 - t)) ?p \<noteq> None"
    by (auto simp: first_seen_def list_all_iff)
  from wait_after[where w=w and t=t and d="t1 - t" and acc=acc, OF absent present] le
  show ?thesis by simp
qed

text \<open>A file that is seen was looked for until then: the wait is unique.\<close>

lemma first_seen_unique:
  assumes "first_seen w p t t1" and "first_seen w p t t2"
  shows "t1 = t2"
proof -
  have later: "\<not> x < y" if "first_seen w p t x" and "first_seen w p t y" for x y
  proof
    assume "x < y"
    from that(1) have "t \<le> x" and "w x p \<noteq> None"
      by (simp_all add: first_seen_def)
    moreover from that(2) have "\<forall>tick \<in> {t..<y}. w tick p = None"
      by (simp add: first_seen_def list_all_iff)
    ultimately show False
      using \<open>x < y\<close> by (metis atLeastLessThan_iff)
  qed
  from later[OF assms] later[OF assms(2) assms(1)] show ?thesis by simp
qed

text \<open>A file that is there at some tick from \<open>t\<close> on is first seen at one of them.\<close>

lemma eventually_first_seen:
  assumes "t \<le> t'" and "w t' p \<noteq> None"
  shows "\<exists>t1. first_seen w p t t1"
proof -
  define t1 where "t1 = (LEAST x. t \<le> x \<and> w x p \<noteq> None)"
  have "t \<le> t1 \<and> w t1 p \<noteq> None"
    unfolding t1_def by (rule LeastI[of "\<lambda>x. t \<le> x \<and> w x p \<noteq> None" t']) (simp add: assms)
  moreover have "w x p = None" if "t \<le> x" and "x < t1" for x
    using that not_less_Least[of x "\<lambda>x. t \<le> x \<and> w x p \<noteq> None"] unfolding t1_def by blast
  ultimately show ?thesis
    by (auto simp: first_seen_def list_all_iff)
qed

subsection \<open>The cursor and the number of slices\<close>

lemma cursor_0: "cursor c 0 = c"
  by (simp add: cursor_def)

lemma cursor_Suc: "cursor (cursor c (Suc 0)) i = cursor c (Suc i)"
  by (simp add: cursor_def)

lemma dt_utc_cursor: "dt_utc (cursor c i) = dt_utc c + int i * 60000000"
  by (simp add: cursor_def dt_utc_def)

lemma dt_comparable_cursor: "dt_comparable (cursor c i) t = dt_comparable c t"
  by (simp add: cursor_def dt_comparable_def)

lemma ceil_div_facts:
  fixes D :: int
  obtains q r where "D + 59999999 = 60000000 * q + r" and "0 \<le> r" and "r < 60000000"
    and "q = (D + 59999999) div 60000000"
proof
  show "D + 59999999 = 60000000 * ((D + 59999999) div 60000000) + (D + 59999999) mod 60000000"
    by (simp add: mult_div_mod_eq)
  show "0 \<le> (D + 59999999) mod 60000000" by simp
  show "(D + 59999999) mod 60000000 < 60000000" by simp
  show "(D + 59999999) div 60000000 = (D + 59999999) div 60000000" by simp
qed

lemma count_lt: "i < nat (((D::int) + 59999999) div 60000000) \<Longrightarrow> int i * 60000000 < D"
proof -
  assume a: "i < nat ((D + 59999999) div 60000000)"
  obtain q r where "D + 59999999 = 60000000 * q + r" "0 \<le> r" "r < 60000000"
    "q = (D + 59999999) div 60000000" by (rule ceil_div_facts)
  with a show ?thesis by linarith
qed

lemma count_ge: "D \<le> int (nat (((D::int) + 59999999) div 60000000)) * 60000000"
proof -
  obtain q r where "D + 59999999 = 60000000 * q + r" "0 \<le> r" "r < 60000000"
    "q = (D + 59999999) div 60000000" by (rule ceil_div_facts)
  then show ?thesis by (cases "0 \<le> q") auto
qed

text \<open>The slices counted start before \<open>t\<close>, and the next start does not.\<close>

lemma slice_count_before:
  "i < slice_count f t \<Longrightarrow> dt_utc (cursor f i) < dt_utc t"
  using count_lt[of i "dt_utc t - dt_utc f"] by (simp add: slice_count_def dt_utc_cursor)

lemma slice_count_reached:
  "dt_utc t \<le> dt_utc (cursor f (slice_count f t))"
  using count_ge[of "dt_utc t - dt_utc f"] by (simp add: slice_count_def dt_utc_cursor)

subsection \<open>The loop over the slices\<close>

lemma replay_slices_done:
  "dt_less c to_dt = Inr False \<Longrightarrow> replay_slices env self w rq to_dt c t = Some ([], Returned)"
  by (subst replay_slices.simps) simp

text \<open>One turn of the loop on a slice that is first seen at tick \<open>t1\<close>.\<close>

lemma replay_slices_step:
  assumes less: "dt_less c to_dt = Inr True"
    and seen: "first_seen w (slice_path env self rq c) t t1"
    and ready: "slice_ready env self (w t1) rq c"
    and range: "micros c + 60000000 < MAXORDINAL * micros_per_day"
  shows "replay_slices env self w rq to_dt c t
           = (case replay_slices env self w rq to_dt (cursor c 1) t1 of
                None \<Rightarrow> None
              | Some (evs, out) \<Rightarrow> Some (slice_events env self (w t1) rq c (t1 - t) @ evs, out))"
proof -
  from ready obtain content where
    stored: "w t1 (slice_path env self rq c) = Some content"
    and dec: "decodable env (decode_response rq) content"
    by (auto simp: slice_ready_def split: option.splits)
  from range have next_date: "dt_add_seconds c 60 = Inr (cursor c 1)"
    by (simp add: dt_add_seconds_def cursor_def)
  show ?thesis
    by (subst replay_slices.simps)
       (simp add: less wait_first_seen[OF seen] stored read_lines_decodable[OF dec]
                  next_date slice_events_def Let_def split: option.splits)
qed

lemma wait_start_0: "wait_start t a 0 = t"
  by (simp add: wait_start_def)

lemma wait_start_Suc: "wait_start t a (Suc i) = a i"
  by (simp add: wait_start_def)

lemma wait_start_shift: "wait_start (a 0) (\<lambda>i. a (Suc i)) i = wait_start t a (Suc i)"
  by (cases i) (simp_all add: wait_start_def)

text \<open>
  \<open>k\<close> turns of the loop, from tick \<open>t\<close>, on slices of which the \<open>i\<close>-th is first seen
  at tick \<open>a i\<close>.
\<close>

lemma replay_slices_prefix:
  assumes "dt_comparable c to_dt"
    and "\<forall>i<k. dt_utc (cursor c i) < dt_utc to_dt"
    and "\<forall>i<k. first_seen w (slice_path env self rq (cursor c i)) (wait_start t a i) (a i)"
    and "\<forall>i<k. slice_ready env self (w (a i)) rq (cursor c i)"
    and "micros c + k * 60000000 < MAXORDINAL * micros_per_day"
  shows "replay_slices env self w rq to_dt c t
           = (case replay_slices env self w rq to_dt (cursor c k) (wait_start t a k) of
                None \<Rightarrow> None
              | Some (evs, out) \<Rightarrow>
                  Some (concat (map (\<lambda>i. slice_events env self (w (a i)) rq (cursor c i)
                                            (a i - wait_start t a i)) [0..<k]) @ evs, out))"
  using assms
proof (induction k arbitrary: c t a)
  case 0
  then show ?case by (simp add: cursor_0 wait_start_0 split: option.splits)
next
  case (Suc k)
  let ?a = "\<lambda>i. a (Suc i)"
  from Suc.prems(2) have "dt_utc (cursor c 0) < dt_utc to_dt" by blast
  with Suc.prems(1) have less: "dt_less c to_dt = Inr True"
    by (simp add: dt_less_def cursor_0)
  from Suc.prems(3) have "first_seen w (slice_path env self rq (cursor c 0)) (wait_start t a 0) (a 0)"
    by blast
  then have seen: "first_seen w (slice_path env self rq c) t (a 0)"
    by (simp add: cursor_0 wait_start_0)
  from Suc.prems(4) have "slice_ready env self (w (a 0)) rq (cursor c 0)"
    by blast
  then have ready: "slice_ready env self (w (a 0)) rq c"
    by (simp add: cursor_0)
  from Suc.prems(5) have range: "micros c + 60000000 < MAXORDINAL * micros_per_day" by simp
  have cmp': "dt_comparable (cursor c 1) to_dt"
    using Suc.prems(1) by (simp add: dt_comparable_cursor)
  have lt': "\<forall>i<k. dt_utc (cursor (cursor c 1) i) < dt_utc to_dt"
    using Suc.prems(2) by (simp add: cursor_Suc)
  have sn': "\<forall>i<k. first_seen w (slice_path env self rq (cursor (cursor c 1) i))
                      (wait_start (a 0) ?a i) (?a i)"
    using Suc.prems(3) by (simp add: cursor_Suc wait_start_shift[where t=t])
  have rd': "\<forall>i<k. slice_ready env self (w (?a i)) rq (cursor (cursor c 1) i)"
    using Suc.prems(4) by (simp add: cursor_Suc)
  have rg': "micros (cursor c 1) + k * 60000000 < MAXORDINAL * micros_per_day"
    using Suc.prems(5) by (simp add: cursor_def)
  have split_events:
    "concat (map (\<lambda>i. slice_events env self (w (a i)) rq (cursor c i) (a i - wait_start t a i))
                 [0..<Suc k])
       = slice_events env self (w (a 0)) rq c (a 0 - t)
         @ concat (map (\<lambda>i. slice_events env self (w (?a i)) rq (cursor (cursor c 1) i)
                               (?a i - wait_start (a 0) ?a i)) [0..<k])"
  proof -
    have "[0..<Suc k] = 0 # map Suc [0..<k]"
      by (simp add: upt_conv_Cons map_Suc_upt del: upt_Suc)
    then show ?thesis
      by (simp add: cursor_0 cursor_Suc wait_start_0 wait_start_shift[where t=t] comp_def del: upt_Suc)
  qed
  show ?case
    unfolding replay_slices_step[OF less seen ready range]
              Suc.IH[of "cursor c 1" "a 0" ?a, OF cmp' lt' sn' rd' rg'] split_events
    by (simp add: cursor_Suc wait_start_shift[where t=t] split: option.splits)
qed

text \<open>\<open>replay\<close> on a request that passes the validator.\<close>

lemma replay_valid:
  assumes valid: "fst (validate_payload env (state_of rq)) = Inr ()"
    and f: "parse_date env (from_date rq) = Inr f"
    and t: "parse_date env (to_date rq) = Inr t"
  shows "replay env self w rq
           = (case replay_slices env self w rq t f 0 of
                None \<Rightarrow> None
              | Some (evs, out) \<Rightarrow>
                  Some ([Debug (ReplayStarted (exchange rq) f t (filters rq))] @ evs
                          @ (case out of
                               Returned \<Rightarrow> [Debug (ReplayFinished (exchange rq) f t (filters rq))]
                             | Raised _ \<Rightarrow> []),
                        out))"
proof -
  have "validate_payload env \<lparr>req = rq, trace = []\<rparr> = (Inr (), \<lparr>req = rq, trace = []\<rparr>)"
    using validate_payload_unchanged[of env "\<lparr>req = rq, trace = []\<rparr>"] valid
    by (metis prod.collapse state_of_def)
  then show ?thesis
    by (simp add: replay_def f t split: option.splits outcome.splits)
qed

subsection \<open>The dates of the scenarios\<close>

lemma iso_2021_000000:
  "py_fromisoformat ''2021-01-01T00:00:00'' = Some \<lparr>micros = 63745056000000000, utcoffset = None\<rparr>"
  by code_simp

lemma iso_2021_000001:
  "py_fromisoformat ''2021-01-01T00:00:01'' = Some \<lparr>micros = 63745056001000000, utcoffset = None\<rparr>"
  by code_simp

lemma iso_2020_235959:
  "py_fromisoformat ''2020-12-31T23:59:59'' = Some \<lparr>micros = 63745055999000000, utcoffset = None\<rparr>"
  by code_simp

lemma iso_2021_000200:
  "py_fromisoformat ''2021-01-01T00:02:00'' = Some \<lparr>micros = 63745056120000000, utcoffset = None\<rparr>"
  by code_simp

lemma iso_2021_000300:
  "py_fromisoformat ''2021-01-01T00:03:00'' = Some \<lparr>micros = 63745056180000000, utcoffset = None\<rparr>"
  by code_simp

lemmas scenario_defs =
  state_of_def scenario_request_def minute_request_def three_minute_request_def
  unknown_exchange_request_def channel_request_def last_minute_request_def
  mixed_dates_request_def py_env_def sample_EXCHANGES_def

section \<open>The claims\<close>

text \<open>
  C1 (amended). For every request that passes the validator, with \<open>from_date\<close> parsed
  to \<open>f\<close> and \<open>to_date\<close> to \<open>t\<close>: when every slice that starts at \<open>f\<close> plus a multiple
  of 60 seconds before \<open>t\<close> appears in the cache while the call waits for it (slice \<open>i\<close>
  is first seen at a tick \<open>a i\<close>, from the tick at which the slice before it was seen; a
  slice that is cached already is seen at once), each line of it gives a record, and the
  cursor after the last of these slices is still a date of the calendar, \<open>replay\<close>
  returns, and its events are the start record, then for each of these slices in order
  the wait with its sleeps, the opening, every record of the file in file order (the
  record of each of its lines) and the log record, then the final record. The cursor
  starts at \<open>f\<close>, each step adds exactly 60 seconds, every slice fetched starts before
  \<open>t\<close>, and the start after the last one is not before \<open>t\<close>, so that no slice at or
  after \<open>to_date\<close> is fetched. In the scenario of the specification exactly three
  records are emitted and two files opened, whether the two slices are cached when the
  call starts or arrive while it runs.
\<close>

theorem replay_fetches_every_slice_in_order:
  assumes valid: "fst (validate_payload env (state_of rq)) = Inr ()"
    and f: "parse_date env (from_date rq) = Inr f"
    and t: "parse_date env (to_date rq) = Inr t"
    and seen: "\<forall>i < slice_count f t.
                 first_seen w (slice_path env self rq (cursor f i)) (wait_start 0 a i) (a i)"
    and ready: "\<forall>i < slice_count f t. slice_ready env self (w (a i)) rq (cursor f i)"
    and range: "micros f + slice_count f t * 60000000 < MAXORDINAL * micros_per_day"
  shows "replay env self w rq
           = Some ([Debug (ReplayStarted (exchange rq) f t (filters rq))]
                   @ concat (map (\<lambda>i. slice_events env self (w (a i)) rq (cursor f i)
                                         (a i - wait_start 0 a i))
                                 [0..<slice_count f t])
                   @ [Debug (ReplayFinished (exchange rq) f t (filters rq))],
                   Returned)
       \<and> cursor f 0 = f
       \<and> (\<forall>i < slice_count f t.
             dt_less (cursor f i) t = Inr True
           \<and> dt_add_seconds (cursor f i) 60 = Inr (cursor f (Suc i)))
       \<and> dt_less (cursor f (slice_count f t)) t = Inr False
       \<and> (\<forall>i < slice_count f t. \<forall>content.
             w (a i) (slice_path env self rq (cursor f i)) = Some content \<longrightarrow>
             map Inr (records_of env (decode_response rq) content)
               = map (decode_line env (decode_response rq)) (file_lines content))"
proof -
  from valid_dates[of env "state_of rq" f t] valid f t
  have cmp: "dt_comparable f t" by (simp_all add: state_of_def)
  let ?n = "slice_count f t"
  let ?evs = "concat (map (\<lambda>i. slice_events env self (w (a i)) rq (cursor f i)
                                   (a i - wait_start 0 a i)) [0..<?n])"
  have before: "\<forall>i < ?n. dt_utc (cursor f i) < dt_utc t"
    by (simp add: slice_count_before)
  have stop: "dt_less (cursor f ?n) t = Inr False"
    using slice_count_reached[of t f] cmp
    by (simp add: dt_less_def dt_comparable_cursor)
  have loop: "replay_slices env self w rq t f 0 = Some (?evs, Returned)"
    unfolding replay_slices_prefix[where w=w and t=0 and a=a and k="?n", OF cmp before seen ready range]
    by (simp add: replay_slices_done[OF stop])
  have steps: "\<forall>i < ?n. dt_less (cursor f i) t = Inr True
                     \<and> dt_add_seconds (cursor f i) 60 = Inr (cursor f (Suc i))"
  proof (intro allI impI conjI)
    fix i assume i: "i < ?n"
    with before cmp show "dt_less (cursor f i) t = Inr True"
      by (simp add: dt_less_def dt_comparable_cursor)
    from i have "Suc i * 60000000 \<le> ?n * 60000000" by simp
    with range have "micros f + Suc i * 60000000 < MAXORDINAL * micros_per_day"
      by linarith
    then show "dt_add_seconds (cursor f i) 60 = Inr (cursor f (Suc i))"
      by (simp add: dt_add_seconds_def cursor_def algebra_simps)
  qed
  have records: "\<forall>i < ?n. \<forall>content.
             w (a i) (slice_path env self rq (cursor f i)) = Some content \<longrightarrow>
             map Inr (records_of env (decode_response rq) content)
               = map (decode_line env (decode_response rq)) (file_lines content)"
  proof (intro allI impI)
    fix i content
    assume "i < ?n" and "w (a i) (slice_path env self rq (cursor f i)) = Some content"
    with ready have "decodable env (decode_response rq) content"
      by (auto simp: slice_ready_def)
    then show "map Inr (records_of env (decode_response rq) content)
                 = map (decode_line env (decode_response rq)) (file_lines content)"
      by (simp add: decodable_records)
  qed
  have run: "replay env self w rq
           = Some ([Debug (ReplayStarted (exchange rq) f t (filters rq))]
                   @ ?evs
                   @ [Debug (ReplayFinished (exchange rq) f t (filters rq))],
                   Returned)"
    using replay_valid[OF valid f t, of self w] loop by simp
  from run steps stop records show ?thesis
    by (simp only: cursor_0 simp_thms)
qed

text \<open>
  The scenario of the specification: the request passes the validator, each line of its
  two slices gives a record, and the theorem gives the run, once with the two slices in
  the cache from the start, and once with a cache in which the first slice is seen after
  one sleep and the second after two more.
\<close>

theorem replay_scenario_witness:
  \<open>observed (replay py_env client scenario_world scenario_request)
     = Some ([\<lparr>local_timestamp = Datetime \<lparr>micros = 63745056001000000, utcoffset = None\<rparr>,
               message = Json (JObj [(''a'', JInt 1)])\<rparr>,
              \<lparr>local_timestamp = Datetime \<lparr>micros = 63745056002500000, utcoffset = None\<rparr>,
               message = Json (JObj [(''a'', JInt 2)])\<rparr>,
              \<lparr>local_timestamp = Datetime \<lparr>micros = 63745056059999999, utcoffset = None\<rparr>,
               message = Json (JObj [(''a'', JInt 3)])\<rparr>],
             [''/tmp/.tardis-cache/bitmex/1062417600-[].json.gz'',
              ''/tmp/.tardis-cache/bitmex/1062417601-[].json.gz''],
             Returned)
   \<and> observed (replay py_env client late_scenario_world scenario_request)
     = observed (replay py_env client scenario_world scenario_request)
   \<and> sleeps (replay py_env client scenario_world scenario_request) = Some 0
   \<and> sleeps (replay py_env client late_scenario_world scenario_request) = Some 3\<close>
proof -
  let ?f = "\<lparr>micros = 63745056000000000, utcoffset = None\<rparr>"
  let ?t = "\<lparr>micros = 63745056120000000, utcoffset = None\<rparr>"
  let ?now = "\<lambda>i::nat. 0::nat"
  let ?ticks = late_scenario_ticks
  let ?rq = scenario_request
  have valid: "fst (validate_payload py_env (state_of ?rq)) = Inr ()"
    by code_simp
  have f: "parse_date py_env (from_date ?rq) = Inr ?f"
    by (simp add: parse_date_def scenario_defs iso_2021_000000)
  have t: "parse_date py_env (to_date ?rq) = Inr ?t"
    by (simp add: parse_date_def scenario_defs iso_2021_000200)
  have n: "slice_count ?f ?t = 2"
    by (simp add: slice_count_def dt_utc_def)
  have two: "[0..<2] = [0, 1]"
    by (simp add: upt_conv_Cons)
  have range: "micros ?f + slice_count ?f ?t * 60000000 < MAXORDINAL * micros_per_day"
    unfolding n by (simp add: MAXORDINAL_def micros_per_day_def)
  have p0: "slice_path py_env client ?rq (cursor ?f 0) = ''/tmp/.tardis-cache/bitmex/1062417600-[].json.gz''"
    by code_simp
  have p1: "slice_path py_env client ?rq (cursor ?f 1) = ''/tmp/.tardis-cache/bitmex/1062417601-[].json.gz''"
    by code_simp
  have s0: "first_seen scenario_world (slice_path py_env client ?rq (cursor ?f 0)) (wait_start 0 ?now 0) (?now 0)"
    unfolding p0 by code_simp
  have s1: "first_seen scenario_world (slice_path py_env client ?rq (cursor ?f 1)) (wait_start 0 ?now 1) (?now 1)"
    unfolding p1 by code_simp
  have seen: "\<forall>i < slice_count ?f ?t.
                first_seen scenario_world (slice_path py_env client ?rq (cursor ?f i))
                  (wait_start 0 ?now i) (?now i)"
    unfolding n using s0 s1 by (auto simp: less_2_cases_iff)
  have r0: "slice_ready py_env client (scenario_world (?now 0)) ?rq (cursor ?f 0)"
    unfolding slice_ready_def p0 by code_simp
  have r1: "slice_ready py_env client (scenario_world (?now 1)) ?rq (cursor ?f 1)"
    unfolding slice_ready_def p1 by code_simp
  have ready: "\<forall>i < slice_count ?f ?t. slice_ready py_env client (scenario_world (?now i)) ?rq (cursor ?f i)"
    unfolding n using r0 r1 by (auto simp: less_2_cases_iff)
  let ?evs = "[Debug (ReplayStarted (exchange ?rq) ?f ?t (filters ?rq))]
                @ concat [slice_events py_env client (scenario_world (?now 0)) ?rq (cursor ?f 0)
                            (?now 0 - wait_start 0 ?now 0),
                          slice_events py_env client (scenario_world (?now 1)) ?rq (cursor ?f 1)
                            (?now 1 - wait_start 0 ?now 1)]
                @ [Debug (ReplayFinished (exchange ?rq) ?f ?t (filters ?rq))]"
  from replay_fetches_every_slice_in_order
         [where w=scenario_world and self=client and a="?now", OF valid f t seen ready range]
  have run: "replay py_env client scenario_world ?rq = Some (?evs, Returned)"
    unfolding n two list.map by blast
  have obs: \<open>observed (Some (?evs, Returned))
     = Some ([\<lparr>local_timestamp = Datetime \<lparr>micros = 63745056001000000, utcoffset = None\<rparr>,
               message = Json (JObj [(''a'', JInt 1)])\<rparr>,
              \<lparr>local_timestamp = Datetime \<lparr>micros = 63745056002500000, utcoffset = None\<rparr>,
               message = Json (JObj [(''a'', JInt 2)])\<rparr>,
              \<lparr>local_timestamp = Datetime \<lparr>micros = 63745056059999999, utcoffset = None\<rparr>,
               message = Json (JObj [(''a'', JInt 3)])\<rparr>],
             [''/tmp/.tardis-cache/bitmex/1062417600-[].json.gz'',
              ''/tmp/.tardis-cache/bitmex/1062417601-[].json.gz''],
             Returned)\<close>
    unfolding slice_events_def p0 p1 by code_simp
  have sl: "sleeps (Some (?evs, Returned)) = Some 0"
    unfolding slice_events_def p0 p1 by code_simp
  have l0: "first_seen late_scenario_world (slice_path py_env client ?rq (cursor ?f 0))
              (wait_start 0 ?ticks 0) (?ticks 0)"
    unfolding p0 by code_simp
  have l1: "first_seen late_scenario_world (slice_path py_env client ?rq (cursor ?f 1))
              (wait_start 0 ?ticks 1) (?ticks 1)"
    unfolding p1 by code_simp
  have late_seen: "\<forall>i < slice_count ?f ?t.
                first_seen late_scenario_world (slice_path py_env client ?rq (cursor ?f i))
                  (wait_start 0 ?ticks i) (?ticks i)"
    unfolding n using l0 l1 by (auto simp: less_2_cases_iff)
  have q0: "slice_ready py_env client (late_scenario_world (?ticks 0)) ?rq (cursor ?f 0)"
    unfolding slice_ready_def p0 by code_simp
  have q1: "slice_ready py_env client (late_scenario_world (?ticks 1)) ?rq (cursor ?f 1)"
    unfolding slice_ready_def p1 by code_simp
  have late_ready: "\<forall>i < slice_count ?f ?t.
                 slice_ready py_env client (late_scenario_world (?ticks i)) ?rq (cursor ?f i)"
    unfolding n using q0 q1 by (auto simp: less_2_cases_iff)
  let ?late = "[Debug (ReplayStarted (exchange ?rq) ?f ?t (filters ?rq))]
                @ concat [slice_events py_env client (late_scenario_world (?ticks 0)) ?rq (cursor ?f 0)
                            (?ticks 0 - wait_start 0 ?ticks 0),
                          slice_events py_env client (late_scenario_world (?ticks 1)) ?rq (cursor ?f 1)
                            (?ticks 1 - wait_start 0 ?ticks 1)]
                @ [Debug (ReplayFinished (exchange ?rq) ?f ?t (filters ?rq))]"
  from replay_fetches_every_slice_in_order
         [where w=late_scenario_world and self=client and a="?ticks",
          OF valid f t late_seen late_ready range]
  have late_run: "replay py_env client late_scenario_world ?rq = Some (?late, Returned)"
    unfolding n two list.map by blast
  have late_obs: "observed (Some (?late, Returned)) = observed (Some (?evs, Returned))"
    unfolding slice_events_def p0 p1 by code_simp
  have late_sl: "sleeps (Some (?late, Returned)) = Some 3"
    unfolding slice_events_def p0 p1 by code_simp
  from run obs sl late_run late_obs late_sl show ?thesis by simp
qed

text \<open>
  Three requests that pass the validator and whose replay does not do all of the above.
  With an empty cache that stays empty the call waits for its first slice and never
  returns. In the last minute of the year 9999 the slice is read, and advancing the cursor
  by 60 seconds raises \<open>OverflowError\<close>. With a line that has no timestamp the records
  of the later lines and of the later slice are not emitted.
\<close>

theorem replay_not_always_completed:
  \<open>replay py_env client (cached []) scenario_request = None
   \<and> observed (replay py_env client last_minute_world last_minute_request)
       = Some ([], [''/tmp/.tardis-cache/bitmex/5258964959-[].json.gz''],
               Raised (OverflowError ''date value out of range''))
   \<and> observed (replay py_env client broken_world three_minute_request)
       = Some ([\<lparr>local_timestamp = Datetime \<lparr>micros = 63745056001000000, utcoffset = None\<rparr>,
                 message = Json (JObj [(''a'', JInt 1)])\<rparr>,
                \<lparr>local_timestamp = Datetime \<lparr>micros = 63745056061000000, utcoffset = None\<rparr>,
                 message = Json (JObj [(''a'', JInt 2)])\<rparr>],
               [''/tmp/.tardis-cache/bitmex/1062417600-[].json.gz'',
                ''/tmp/.tardis-cache/bitmex/1062417601-[].json.gz''],
               Raised (library_error ''datetime.strptime''))\<close>
proof -
  let ?f = "\<lparr>micros = 63745056000000000, utcoffset = None\<rparr>"
  let ?t = "\<lparr>micros = 63745056120000000, utcoffset = None\<rparr>"
  have valid: "fst (validate_payload py_env (state_of scenario_request)) = Inr ()"
    by code_simp
  have f: "parse_date py_env (from_date scenario_request) = Inr ?f"
    by (simp add: parse_date_def scenario_defs iso_2021_000000)
  have t: "parse_date py_env (to_date scenario_request) = Inr ?t"
    by (simp add: parse_date_def scenario_defs iso_2021_000200)
  have less: "dt_less ?f ?t = Inr True"
    by (simp add: dt_less_def dt_comparable_def dt_utc_def)
  have "wait_for_slice py_env client (cached []) scenario_request ?f 0 [] = None"
    by (rule wait_forever) (simp add: cached_def)
  then have "replay_slices py_env client (cached []) scenario_request ?t ?f 0 = None"
    by (subst replay_slices.simps) (simp add: less)
  then have never: "replay py_env client (cached []) scenario_request = None"
    by (simp add: replay_valid[OF valid f t])
  have overflow: "observed (replay py_env client last_minute_world last_minute_request)
       = Some ([], [''/tmp/.tardis-cache/bitmex/5258964959-[].json.gz''],
               Raised (OverflowError ''date value out of range''))"
    by code_simp
  have broken: \<open>observed (replay py_env client broken_world three_minute_request)
       = Some ([\<lparr>local_timestamp = Datetime \<lparr>micros = 63745056001000000, utcoffset = None\<rparr>,
                 message = Json (JObj [(''a'', JInt 1)])\<rparr>,
                \<lparr>local_timestamp = Datetime \<lparr>micros = 63745056061000000, utcoffset = None\<rparr>,
                 message = Json (JObj [(''a'', JInt 2)])\<rparr>],
               [''/tmp/.tardis-cache/bitmex/1062417600-[].json.gz'',
                ''/tmp/.tardis-cache/bitmex/1062417601-[].json.gz''],
               Raised (library_error ''datetime.strptime''))\<close>
    by code_simp
  from never overflow broken show ?thesis by simp
qed

text \<open>
  C2 (amended). For a slice file whose content is the single line
  \<open>2021-01-01T00:00:00.1234560Z {"a":1}\<close> and a newline (a timestamp of 28 bytes, a
  delimiter at offset 28 and the message from offset 29), \<open>replay\<close> with
  \<open>decode_response\<close> true emits exactly one record: its \<open>local_timestamp\<close> is the date
  2021-01-01T00:00:00.123456, parsed from the first 26 bytes of the line, and its message
  is the JSON object with the one item \<open>a\<close>: 1.
\<close>

theorem round_trip_of_a_formatted_line:
  \<open>observed (replay py_env client format_line_world minute_request)
     = Some ([\<lparr>local_timestamp = Datetime \<lparr>micros = 63745056000123456, utcoffset = None\<rparr>,
               message = Json (JObj [(''a'', JInt 1)])\<rparr>],
             [''/tmp/.tardis-cache/bitmex/1062417600-[].json.gz''],
             Returned)
   \<and> mk_datetime 2021 1 1 0 0 0 123456 None = Some \<lparr>micros = 63745056000123456, utcoffset = None\<rparr>
   \<and> slice 0 (DATE_MESSAGE_SPLIT_INDEX - 2) ''2021-01-01T00:00:00.1234560Z {"a":1}\<newline>''
       = ''2021-01-01T00:00:00.123456''
   \<and> slice_from (DATE_MESSAGE_SPLIT_INDEX + 1) ''2021-01-01T00:00:00.1234560Z {"a":1}\<newline>''
       = ''{"a":1}\<newline>''\<close>
  by code_simp

text \<open>
  On the line as the specification writes it, with a timestamp of 26 bytes, the message
  read from offset 29 is \<open>a":1}\<close> and a newline, which is no JSON text: the call ends
  with the error of \<open>json.loads\<close> and emits no record.
\<close>

theorem round_trip_line_counterexample:
  \<open>observed (replay py_env client claim_line_world minute_request)
     = Some ([], [''/tmp/.tardis-cache/bitmex/1062417600-[].json.gz''],
             Raised (library_error ''json.loads''))
   \<and> slice_from (DATE_MESSAGE_SPLIT_INDEX + 1) ''2021-01-01T00:00:00.123456 {"a":1}\<newline>''
       = ''a":1}\<newline>''\<close>
  by code_simp

text \<open>
  C3. For every request whose exchange is not in \<open>EXCHANGES\<close>, \<open>replay\<close> ends before any
  event, and the error it raises is the \<open>NameError\<close> of the name \<open>sEXCHANGES\<close> in the
  message of the intended \<open>ValueError\<close>, which is never made: no message names the
  exchange or the valid exchanges.
\<close>

theorem unknown_exchange_raises_NameError:
  "exchange rq \<notin> set (EXCHANGES env) \<Longrightarrow>
   replay env self w rq = Some ([], Raised (NameError ''sEXCHANGES''))"
  by (simp add: replay_def validate_payload_def)

text \<open>The exchange \<open>kraken\<close> is not in the sample registry.\<close>

theorem unknown_exchange_witness:
  "replay py_env client scenario_world unknown_exchange_request
     = Some ([], Raised (NameError ''sEXCHANGES''))"
proof -
  have "exchange unknown_exchange_request \<notin> set (EXCHANGES py_env)"
    by (simp add: scenario_defs)
  then show ?thesis by (rule unknown_exchange_raises_NameError)
qed

text \<open>
  C4 (amended). For an exchange that is known (the first check comes before the dates)
  and two date strings that parse. When the two dates are both naive or both aware: if
  \<open>from_date\<close> equals \<open>to_date\<close> or is later, the validator fails with the
  \<open>ValueError\<close> of the date ordering; if it is earlier, by one second or more, the date
  ordering passes and the result is that of the checks of the filters. When one date is
  naive and the other aware, the comparison of line 108 raises \<open>TypeError\<close>, whatever
  the two dates are: the validator neither fails with the \<open>ValueError\<close> nor passes.
\<close>

theorem date_order_rule:
  assumes "exchange (req s) \<in> set (EXCHANGES env)"
    and "from_date (req s) = Some a" and "to_date (req s) = Some b"
    and "fromisoformat env a = Some d1" and "fromisoformat env b = Some d2"
  shows "(dt_comparable d1 d2 \<and> dt_utc d1 = dt_utc d2 \<longrightarrow>
            validate_payload env s = (Inl invalid_date_order, s))
       \<and> (dt_comparable d1 d2 \<and> dt_utc d1 > dt_utc d2 \<longrightarrow>
            validate_payload env s = (Inl invalid_date_order, s))
       \<and> (dt_comparable d1 d2 \<and> dt_utc d1 < dt_utc d2 \<longrightarrow>
            validate_payload env s = validate_filters_arg env s)
       \<and> (\<not> dt_comparable d1 d2 \<longrightarrow>
            validate_payload env s
              = (Inl (TypeError ''can't compare offset-naive and offset-aware datetimes''), s))"
  using assms
  by (simp add: validate_payload_def try_parse_as_iso_date_def parse_date_def dt_ge_def)

text \<open>
  From \<open>2021-01-01T00:00:00\<close>: a \<open>to_date\<close> one second later passes, an equal one and
  one a second earlier fail.
\<close>

theorem date_order_rule_witness:
  "validate_payload py_env (state_of (scenario_request\<lparr>to_date := Some ''2021-01-01T00:00:01''\<rparr>))
     = (Inr (), state_of (scenario_request\<lparr>to_date := Some ''2021-01-01T00:00:01''\<rparr>))
   \<and> validate_payload py_env (state_of (scenario_request\<lparr>to_date := Some ''2021-01-01T00:00:00''\<rparr>))
     = (Inl invalid_date_order, state_of (scenario_request\<lparr>to_date := Some ''2021-01-01T00:00:00''\<rparr>))
   \<and> validate_payload py_env (state_of (scenario_request\<lparr>to_date := Some ''2020-12-31T23:59:59''\<rparr>))
     = (Inl invalid_date_order, state_of (scenario_request\<lparr>to_date := Some ''2020-12-31T23:59:59''\<rparr>))"
proof -
  let ?a = "''2021-01-01T00:00:00''"
  let ?d = "\<lparr>micros = 63745056000000000, utcoffset = None\<rparr>"
  have a: "fromisoformat py_env ?a = Some ?d"
    by (simp add: py_env_def iso_2021_000000)
  have b1: "fromisoformat py_env ''2021-01-01T00:00:01'' = Some \<lparr>micros = 63745056001000000, utcoffset = None\<rparr>"
    by (simp add: py_env_def iso_2021_000001)
  have b3: "fromisoformat py_env ''2020-12-31T23:59:59'' = Some \<lparr>micros = 63745055999000000, utcoffset = None\<rparr>"
    by (simp add: py_env_def iso_2020_235959)
  have later: "validate_payload py_env (state_of (scenario_request\<lparr>to_date := Some ''2021-01-01T00:00:01''\<rparr>))
     = (Inr (), state_of (scenario_request\<lparr>to_date := Some ''2021-01-01T00:00:01''\<rparr>))"
    using date_order_rule[of "state_of (scenario_request\<lparr>to_date := Some ''2021-01-01T00:00:01''\<rparr>)"
                             py_env ?a "''2021-01-01T00:00:01''", OF _ _ _ a b1]
    by (simp add: scenario_defs dt_comparable_def dt_utc_def validate_filters_arg_def)
  have equal: "validate_payload py_env (state_of (scenario_request\<lparr>to_date := Some ?a\<rparr>))
     = (Inl invalid_date_order, state_of (scenario_request\<lparr>to_date := Some ?a\<rparr>))"
    using date_order_rule[of "state_of (scenario_request\<lparr>to_date := Some ?a\<rparr>)"
                             py_env ?a ?a, OF _ _ _ a a]
    by (simp add: scenario_defs dt_comparable_def dt_utc_def)
  have earlier: "validate_payload py_env (state_of (scenario_request\<lparr>to_date := Some ''2020-12-31T23:59:59''\<rparr>))
     = (Inl invalid_date_order, state_of (scenario_request\<lparr>to_date := Some ''2020-12-31T23:59:59''\<rparr>))"
    using date_order_rule[of "state_of (scenario_request\<lparr>to_date := Some ''2020-12-31T23:59:59''\<rparr>)"
                             py_env ?a "''2020-12-31T23:59:59''", OF _ _ _ a b3]
    by (simp add: scenario_defs dt_comparable_def dt_utc_def)
  from later equal earlier show ?thesis by simp
qed

text \<open>
  Two date strings that parse, the naive \<open>2022-01-01T00:00:00\<close> as \<open>from_date\<close> and the
  aware \<open>2021-01-01T00:00:00+00:00\<close>, a year earlier, as \<open>to_date\<close>: the validator does
  not fail with the \<open>ValueError\<close> of the date ordering, it raises \<open>TypeError\<close>, and so
  does \<open>replay\<close>, before any event.
\<close>

theorem naive_and_aware_dates_counterexample:
  "py_fromisoformat ''2022-01-01T00:00:00'' = Some \<lparr>micros = 63776592000000000, utcoffset = None\<rparr>
   \<and> py_fromisoformat ''2021-01-01T00:00:00+00:00''
       = Some \<lparr>micros = 63745056000000000, utcoffset = Some 0\<rparr>
   \<and> validate_payload py_env (state_of mixed_dates_request)
       = (Inl (TypeError ''can't compare offset-naive and offset-aware datetimes''),
          state_of mixed_dates_request)
   \<and> replay py_env client scenario_world mixed_dates_request
       = Some ([], Raised (TypeError ''can't compare offset-naive and offset-aware datetimes''))"
  by code_simp

text \<open>
  C5. A slice file whose content is an empty line followed by one record line. Its first
  line is the newline byte, of length 1, so the test \<open>len(line) == 0\<close> does not skip it
  (no line of a file has length 0: lemma \<open>file_lines_nonempty\<close>). With
  \<open>decode_response\<close> false \<open>replay\<close> yields two records, the first made of the newline
  alone; with \<open>decode_response\<close> true it raises the error of \<open>strptime\<close> at the empty
  line and yields none.
\<close>

theorem empty_line_is_not_skipped:
  \<open>observed (replay py_env client empty_line_world (minute_request\<lparr>decode_response := False\<rparr>))
     = Some ([\<lparr>local_timestamp = Bytes ''\<newline>'', message = Bytes []\<rparr>,
              \<lparr>local_timestamp = Bytes ''2021-01-01T00:00:00.1234560Z'',
               message = Bytes ''{"a":1}\<newline>''\<rparr>],
             [''/tmp/.tardis-cache/bitmex/1062417600-[].json.gz''],
             Returned)
   \<and> observed (replay py_env client empty_line_world minute_request)
     = Some ([], [''/tmp/.tardis-cache/bitmex/1062417600-[].json.gz''],
             Raised (library_error ''datetime.strptime''))\<close>
  by code_simp

text \<open>
  C6 (amended). With \<open>decode_response\<close> false every line of a file gives the record of
  its first 28 bytes and of its bytes from offset 29. For a line of at least 29 bytes the
  first component, the byte at offset 28 and the second component make up the line; for a
  shorter line the first component is the whole line and the second is empty.
\<close>

theorem raw_segments_rebuild_line:
  "read_lines env False (file_lines content) 0
     = (map (\<lambda>line. Yield \<lparr> local_timestamp = Bytes (take 28 line), message = Bytes (drop 29 line) \<rparr>)
            (file_lines content),
        length (file_lines content), None)
   \<and> (\<forall>line \<in> set (file_lines content).
         (29 \<le> length line \<longrightarrow> take 28 line @ [line ! 28] @ drop 29 line = line)
       \<and> (length line < 29 \<longrightarrow> take 28 line = line \<and> drop 29 line = []))"
proof -
  have "take 28 line @ [line ! 28] @ drop 29 line = line" if "29 \<le> length line" for line :: bytes
  proof -
    from that have "28 < length line" by simp
    then have "drop 28 line = line ! 28 # drop 29 line"
      using Cons_nth_drop_Suc[of 28 line] by simp
    then show ?thesis
      using append_take_drop_id[of 28 line] by simp
  qed
  then show ?thesis
    using read_lines_raw[of env content 0] by simp
qed

text \<open>A file of two lines, one of 37 bytes and one of 4.\<close>

theorem raw_segments_witness:
  \<open>read_lines py_env False (file_lines ''2021-01-01T00:00:00.1234560Z {"a":1}\<newline>abc\<newline>'') 0
     = ([Yield \<lparr> local_timestamp = Bytes ''2021-01-01T00:00:00.1234560Z'',
                  message = Bytes ''{"a":1}\<newline>'' \<rparr>,
         Yield \<lparr> local_timestamp = Bytes ''abc\<newline>'', message = Bytes [] \<rparr>], 2, None)
   \<and> take 28 ''2021-01-01T00:00:00.1234560Z {"a":1}\<newline>''
       @ [''2021-01-01T00:00:00.1234560Z {"a":1}\<newline>'' ! 28]
       @ drop 29 ''2021-01-01T00:00:00.1234560Z {"a":1}\<newline>''
       = ''2021-01-01T00:00:00.1234560Z {"a":1}\<newline>''
   \<and> take 28 ''abc\<newline>'' = ''abc\<newline>'' \<and> drop 29 ''abc\<newline>'' = []\<close>
proof -
  let ?content = \<open>''2021-01-01T00:00:00.1234560Z {"a":1}\<newline>abc\<newline>''\<close>
  let ?long = \<open>''2021-01-01T00:00:00.1234560Z {"a":1}\<newline>''\<close>
  let ?short = \<open>''abc\<newline>''\<close>
  have ls: "file_lines ?content = [?long, ?short]"
    by simp
  from raw_segments_rebuild_line[of py_env ?content]
  have run: "read_lines py_env False (file_lines ?content) 0
               = (map (\<lambda>line. Yield \<lparr> local_timestamp = Bytes (take 28 line),
                                         message = Bytes (drop 29 line) \<rparr>)
                      (file_lines ?content),
                  length (file_lines ?content), None)"
    and each: "\<forall>line \<in> set (file_lines ?content).
                 (29 \<le> length line \<longrightarrow> take 28 line @ [line ! 28] @ drop 29 line = line)
               \<and> (length line < 29 \<longrightarrow> take 28 line = line \<and> drop 29 line = [])"
    by blast+
  have "?long \<in> set (file_lines ?content)" and "29 \<le> length ?long"
    unfolding ls by simp_all
  with each have long: "take 28 ?long @ [?long ! 28] @ drop 29 ?long = ?long"
    by blast
  have "?short \<in> set (file_lines ?content)" and "length ?short < 29"
    unfolding ls by simp_all
  with each have short: "take 28 ?short = ?short \<and> drop 29 ?short = []"
    by blast
  from run have \<open>read_lines py_env False (file_lines ?content) 0
     = ([Yield \<lparr> local_timestamp = Bytes ''2021-01-01T00:00:00.1234560Z'',
                  message = Bytes ''{"a":1}\<newline>'' \<rparr>,
         Yield \<lparr> local_timestamp = Bytes ''abc\<newline>'', message = Bytes [] \<rparr>], 2, None)\<close>
    unfolding ls by simp
  with long short show ?thesis by blast
qed

text \<open>
  The line \<open>abc\<close> with its newline is not empty, and its record has the whole line as
  first component: with a delimiter byte between the components the concatenation has 5
  bytes, the line 4.
\<close>

theorem raw_short_line_counterexample:
  "read_lines py_env False (file_lines ''abc\<newline>'') 0
     = ([Yield \<lparr> local_timestamp = Bytes ''abc\<newline>'', message = Bytes [] \<rparr>], 1, None)
   \<and> length (''abc\<newline>'' @ [CHR '' ''] @ []) = 5 \<and> length ''abc\<newline>'' = 4"
  by (simp add: decode_line_def slice_def slice_from_def DATE_MESSAGE_SPLIT_INDEX_def)

text \<open>
  C7. With \<open>decode_response\<close> false no line can make the decoding fail: every line,
  whatever its bytes and its length, gives the record of its two slices, and the loop
  over the lines of any file yields one record for each line and ends without an
  exception.
\<close>

theorem raw_mode_never_raises:
  "decode_line env False line
     = Inr \<lparr> local_timestamp = Bytes (slice 0 DATE_MESSAGE_SPLIT_INDEX line),
             message = Bytes (slice_from (DATE_MESSAGE_SPLIT_INDEX + 1) line) \<rparr>
   \<and> read_lines env False (file_lines content) 0
     = (map (\<lambda>line. Yield \<lparr> local_timestamp = Bytes (slice 0 DATE_MESSAGE_SPLIT_INDEX line),
                               message = Bytes (slice_from (DATE_MESSAGE_SPLIT_INDEX + 1) line) \<rparr>)
            (file_lines content),
        length (file_lines content), None)"
  using read_lines_raw[of env content 0]
  by (simp add: decode_line_def slice_def slice_from_def DATE_MESSAGE_SPLIT_INDEX_def)

text \<open>
  C8. With \<open>decode_response\<close> true, let the call reach a line that does not decode: the
  slices before the \<open>k\<close>-th appear in the cache while the call waits for them (slice
  \<open>i\<close> is first seen at tick \<open>a i\<close>) with lines that all give records, the \<open>k\<close>-th
  slice is first seen at tick \<open>a k\<close>, and one of its lines has a timestamp segment for
  which \<open>strptime\<close> raises its \<open>ValueError\<close>, or a message segment for which
  \<open>json.loads\<close> raises an exception, the lines before it giving the records \<open>rs\<close>.
  Then \<open>replay\<close> raises that exception \<open>e\<close> at that line (for a message that is no
  JSON text, the \<open>ValueError\<close> of \<open>json.loads\<close>): its events are those of the slices
  before, the wait for the \<open>k\<close>-th slice, its opening and the records \<open>rs\<close>, and
  nothing after them, no record of that line, of a later line or of a later slice.
\<close>

theorem malformed_record_aborts_replay:
  assumes valid: "fst (validate_payload env (state_of rq)) = Inr ()"
    and f: "parse_date env (from_date rq) = Inr f"
    and t: "parse_date env (to_date rq) = Inr t"
    and dec: "decode_response rq"
    and k: "k < slice_count f t"
    and seen: "\<forall>i \<le> k. first_seen w (slice_path env self rq (cursor f i)) (wait_start 0 a i) (a i)"
    and ready: "\<forall>i < k. slice_ready env self (w (a i)) rq (cursor f i)"
    and range: "micros f + k * 60000000 < MAXORDINAL * micros_per_day"
    and stored: "w (a k) (slice_path env self rq (cursor f k)) = Some content"
    and lines: "file_lines content = pre @ line # post"
    and pre: "map (decode_line env True) pre = map Inr rs"
    and bad: "(strptime env (slice 0 (DATE_MESSAGE_SPLIT_INDEX - 2) line) = None
               \<and> e = library_error ''datetime.strptime'')
            \<or> (strptime env (slice 0 (DATE_MESSAGE_SPLIT_INDEX - 2) line) \<noteq> None
               \<and> json_loads env (slice_from (DATE_MESSAGE_SPLIT_INDEX + 1) line) = Inl e)"
  shows "replay env self w rq
           = Some ([Debug (ReplayStarted (exchange rq) f t (filters rq))]
                   @ concat (map (\<lambda>i. slice_events env self (w (a i)) rq (cursor f i)
                                         (a i - wait_start 0 a i))
                                 [0..<k])
                   @ waiting_events (slice_path env self rq (cursor f k)) (a k - wait_start 0 a k)
                   @ [GzipOpen (slice_path env self rq (cursor f k))]
                   @ map Yield rs,
                   Raised e)"
proof -
  from valid_dates[of env "state_of rq" f t] valid f t
  have cmp: "dt_comparable f t" by (simp add: state_of_def)
  let ?p = "slice_path env self rq (cursor f k)"
  let ?before = "concat (map (\<lambda>i. slice_events env self (w (a i)) rq (cursor f i)
                                      (a i - wait_start 0 a i)) [0..<k])"
  have before: "\<forall>i < k. dt_utc (cursor f i) < dt_utc t"
    using k by (simp add: slice_count_before)
  have less: "dt_less (cursor f k) t = Inr True"
    using slice_count_before[OF k] cmp by (simp add: dt_less_def dt_comparable_cursor)
  have fails: "decode_line env True line = Inl e"
    using bad by (auto simp: decode_line_def split: option.splits sum.splits)
  have ne: "[] \<notin> set pre" "line \<noteq> []"
    using file_lines_nonempty[of content] lines by auto
  have rd: "read_lines env True (file_lines content) 0 = (map Yield rs, length pre + 1, Some e)"
    unfolding lines using read_lines_failure[OF ne pre fails, of post 0] by simp
  from seen have seen_before: "\<forall>i < k. first_seen w (slice_path env self rq (cursor f i))
                                          (wait_start 0 a i) (a i)"
    by simp
  from seen have seen_k: "first_seen w ?p (wait_start 0 a k) (a k)"
    by simp
  have here: "replay_slices env self w rq t (cursor f k) (wait_start 0 a k)
                = Some (waiting_events ?p (a k - wait_start 0 a k) @ [GzipOpen ?p] @ map Yield rs,
                        Raised e)"
    by (subst replay_slices.simps)
       (simp add: less wait_first_seen[OF seen_k] stored dec rd)
  have loop: "replay_slices env self w rq t f 0
                = Some (?before @ waiting_events ?p (a k - wait_start 0 a k) @ [GzipOpen ?p]
                        @ map Yield rs, Raised e)"
    unfolding replay_slices_prefix[where w=w and t=0 and a=a and k=k,
                                   OF cmp before seen_before ready range]
    by (simp add: here)
  show ?thesis
    using replay_valid[OF valid f t, of self w] loop by simp
qed

text \<open>
  Three slices, of which the second and the third arrive after two sleeps; the message of
  the second line of the second slice is cut short. The records of the first slice and of
  the first line of the second are emitted, the call ends with the \<open>ValueError\<close> of
  \<open>json.loads\<close>, and the third slice is never opened.
\<close>

theorem malformed_record_witness:
  \<open>observed (replay py_env client late_broken_world three_minute_request)
     = Some ([\<lparr>local_timestamp = Datetime \<lparr>micros = 63745056001000000, utcoffset = None\<rparr>,
               message = Json (JObj [(''a'', JInt 1)])\<rparr>,
              \<lparr>local_timestamp = Datetime \<lparr>micros = 63745056061000000, utcoffset = None\<rparr>,
               message = Json (JObj [(''a'', JInt 2)])\<rparr>],
             [''/tmp/.tardis-cache/bitmex/1062417600-[].json.gz'',
              ''/tmp/.tardis-cache/bitmex/1062417601-[].json.gz''],
             Raised (library_error ''json.loads''))
   \<and> sleeps (replay py_env client late_broken_world three_minute_request) = Some 2\<close>
proof -
  let ?f = "\<lparr>micros = 63745056000000000, utcoffset = None\<rparr>"
  let ?t = "\<lparr>micros = 63745056180000000, utcoffset = None\<rparr>"
  let ?rq = three_minute_request
  let ?ticks = late_broken_ticks
  let ?content = \<open>''2021-01-01T00:01:01.0000000Z {"a":2}\<newline>2021-01-01T00:01:02.0000000Z {"a":\<newline>2021-01-01T00:01:03.0000000Z {"a":3}\<newline>''\<close>
  let ?pre = \<open>[''2021-01-01T00:01:01.0000000Z {"a":2}\<newline>'']\<close>
  let ?line = \<open>''2021-01-01T00:01:02.0000000Z {"a":\<newline>''\<close>
  let ?post = \<open>[''2021-01-01T00:01:03.0000000Z {"a":3}\<newline>'']\<close>
  let ?rs = "[\<lparr>local_timestamp = Datetime \<lparr>micros = 63745056061000000, utcoffset = None\<rparr>,
               message = Json (JObj [(''a'', JInt 2)])\<rparr>]"
  let ?e = "library_error ''json.loads''"
  have valid: "fst (validate_payload py_env (state_of ?rq)) = Inr ()"
    by code_simp
  have f: "parse_date py_env (from_date ?rq) = Inr ?f"
    by (simp add: parse_date_def scenario_defs iso_2021_000000)
  have t: "parse_date py_env (to_date ?rq) = Inr ?t"
    by (simp add: parse_date_def scenario_defs iso_2021_000300)
  have dec: "decode_response ?rq"
    by (simp add: scenario_defs)
  have k: "1 < slice_count ?f ?t"
    by (simp add: slice_count_def dt_utc_def)
  have one: "[0..<1] = [0]"
    by simp
  have p0: "slice_path py_env client ?rq (cursor ?f 0) = ''/tmp/.tardis-cache/bitmex/1062417600-[].json.gz''"
    by code_simp
  have p1: "slice_path py_env client ?rq (cursor ?f 1) = ''/tmp/.tardis-cache/bitmex/1062417601-[].json.gz''"
    by code_simp
  have s0: "first_seen late_broken_world (slice_path py_env client ?rq (cursor ?f 0))
              (wait_start 0 ?ticks 0) (?ticks 0)"
    unfolding p0 by code_simp
  have s1: "first_seen late_broken_world (slice_path py_env client ?rq (cursor ?f 1))
              (wait_start 0 ?ticks 1) (?ticks 1)"
    unfolding p1 by code_simp
  have seen: "\<forall>i \<le> 1. first_seen late_broken_world (slice_path py_env client ?rq (cursor ?f i))
                          (wait_start 0 ?ticks i) (?ticks i)"
    using s0 s1 by (auto simp: le_Suc_eq)
  have r0: "slice_ready py_env client (late_broken_world (?ticks 0)) ?rq (cursor ?f 0)"
    unfolding slice_ready_def p0 by code_simp
  have ready: "\<forall>i < 1. slice_ready py_env client (late_broken_world (?ticks i)) ?rq (cursor ?f i)"
    using r0 by simp
  have range: "micros ?f + 1 * 60000000 < MAXORDINAL * micros_per_day"
    by (simp add: MAXORDINAL_def micros_per_day_def)
  have stored: "late_broken_world (?ticks 1) (slice_path py_env client ?rq (cursor ?f 1)) = Some ?content"
    unfolding p1 by code_simp
  have lines: "file_lines ?content = ?pre @ ?line # ?post"
    by simp
  have pre: "map (decode_line py_env True) ?pre = map Inr ?rs"
    by code_simp
  have bad: "(strptime py_env (slice 0 (DATE_MESSAGE_SPLIT_INDEX - 2) ?line) = None
               \<and> ?e = library_error ''datetime.strptime'')
            \<or> (strptime py_env (slice 0 (DATE_MESSAGE_SPLIT_INDEX - 2) ?line) \<noteq> None
               \<and> json_loads py_env (slice_from (DATE_MESSAGE_SPLIT_INDEX + 1) ?line) = Inl ?e)"
    by code_simp
  let ?evs = "[Debug (ReplayStarted (exchange ?rq) ?f ?t (filters ?rq))]
                @ concat [slice_events py_env client (late_broken_world (?ticks 0)) ?rq (cursor ?f 0)
                            (?ticks 0 - wait_start 0 ?ticks 0)]
                @ waiting_events (slice_path py_env client ?rq (cursor ?f 1))
                    (?ticks 1 - wait_start 0 ?ticks 1)
                @ [GzipOpen (slice_path py_env client ?rq (cursor ?f 1))]
                @ map Yield ?rs"
  from malformed_record_aborts_replay
         [where w=late_broken_world and self=client and a="?ticks" and k=1,
          OF valid f t dec k seen ready range stored lines pre bad]
  have run: "replay py_env client late_broken_world ?rq = Some (?evs, Raised ?e)"
    unfolding one list.map .
  have obs: \<open>observed (Some (?evs, Raised ?e))
     = Some ([\<lparr>local_timestamp = Datetime \<lparr>micros = 63745056001000000, utcoffset = None\<rparr>,
               message = Json (JObj [(''a'', JInt 1)])\<rparr>,
              \<lparr>local_timestamp = Datetime \<lparr>micros = 63745056061000000, utcoffset = None\<rparr>,
               message = Json (JObj [(''a'', JInt 2)])\<rparr>],
             [''/tmp/.tardis-cache/bitmex/1062417600-[].json.gz'',
              ''/tmp/.tardis-cache/bitmex/1062417601-[].json.gz''],
             Raised (library_error ''json.loads''))\<close>
    unfolding slice_events_def p0 p1 by code_simp
  have sl: "sleeps (Some (?evs, Raised ?e)) = Some 2"
    unfolding slice_events_def p0 p1 by code_simp
  from run obs sl show ?thesis by simp
qed

text \<open>
  C9. The validator is pure: whatever its result, it leaves the state it was called in
  (the exchange, the two date strings, the filters with their names and symbols, and the
  events so far) as it found it; and when it fails inside \<open>replay\<close>, the call ends with
  that error and no event: nothing was logged, looked up in the file system or yielded.
\<close>

theorem validate_payload_pure:
  "validate_payload env s = (fst (validate_payload env s), s)
   \<and> (fst (validate_payload env (state_of rq)) = Inl e \<longrightarrow>
        replay env self w rq = Some ([], Raised e))"
proof -
  have unchanged: "validate_payload env s' = (fst (validate_payload env s'), s')" for s'
    using validate_payload_unchanged[of env s'] by (metis prod.collapse)
  have "replay env self w rq = Some ([], Raised e)"
    if "fst (validate_payload env (state_of rq)) = Inl e"
    using that unchanged[of "state_of rq"]
    by (simp add: replay_def state_of_def split: prod.splits sum.splits)
  with unchanged show ?thesis by blast
qed

text \<open>A request that passes and one that fails at the first check.\<close>

theorem validate_payload_pure_witness:
  "validate_payload py_env (state_of channel_request) = (Inr (), state_of channel_request)
   \<and> validate_payload py_env (state_of unknown_exchange_request)
       = (Inl (NameError ''sEXCHANGES''), state_of unknown_exchange_request)
   \<and> replay py_env client scenario_world unknown_exchange_request
       = Some ([], Raised (NameError ''sEXCHANGES''))"
proof -
  have 1: "fst (validate_payload py_env (state_of channel_request)) = Inr ()"
    by code_simp
  have 2: "fst (validate_payload py_env (state_of unknown_exchange_request)) = Inl (NameError ''sEXCHANGES'')"
    by (simp add: validate_payload_def scenario_defs)
  from 1 2 validate_payload_pure[of py_env "state_of channel_request"]
       validate_payload_pure[of py_env "state_of unknown_exchange_request" unknown_exchange_request
                                "NameError ''sEXCHANGES''" client scenario_world]
  show ?thesis by simp
qed

text \<open>
  C10. The channels of the exchange are looked up in \<open>EXCHANGE_CHANNELS_INFO\<close> only after
  the exchange passed the membership test: for an exchange outside \<open>EXCHANGES\<close> the
  validator ends at the first check, and when every known exchange is a key of the
  registry the validator never ends with \<open>KeyError\<close>, whatever the filters.
\<close>

theorem channel_lookup_after_exchange_check:
  "(exchange (req s) \<notin> set (EXCHANGES env) \<longrightarrow>
      fst (validate_payload env s) = Inl (NameError ''sEXCHANGES''))
   \<and> (set (EXCHANGES env) \<subseteq> dom (EXCHANGE_CHANNELS_INFO env) \<longrightarrow>
      fst (validate_payload env s) \<noteq> Inl (KeyError k))"
proof (intro conjI impI)
  assume "exchange (req s) \<notin> set (EXCHANGES env)"
  then show "fst (validate_payload env s) = Inl (NameError ''sEXCHANGES'')"
    by (simp add: validate_payload_def)
next
  assume sub: "set (EXCHANGES env) \<subseteq> dom (EXCHANGE_CHANNELS_INFO env)"
  show "fst (validate_payload env s) \<noteq> Inl (KeyError k)"
  proof (cases "exchange (req s) \<in> set (EXCHANGES env)")
    case False
    then show ?thesis by (simp add: validate_payload_def)
  next
    case True
    with sub have "EXCHANGE_CHANNELS_INFO env (exchange (req s)) \<noteq> None" by auto
    then have vf: "\<And>fs. fst (validate_filters env fs s) \<noteq> Inl (KeyError k)"
      by (rule validate_filters_no_KeyError)
    show ?thesis
      using vf try_parse_no_KeyError[of env _ k]
      by (auto simp: validate_payload_def validate_filters_arg_def parse_date_def library_error_def
                     dt_ge_def invalid_from_date_def invalid_to_date_def invalid_date_order_def
                     invalid_filters_def
               split: sum.splits bool.splits filters_arg.splits option.splits if_splits)
  qed
qed

text \<open>
  The sample registry has a key for each of its exchanges; \<open>kraken\<close> is not among them,
  and the request with two filters of \<open>bitmex\<close> looks its channels up.
\<close>

theorem channel_lookup_witness:
  "fst (validate_payload py_env (state_of unknown_exchange_request)) = Inl (NameError ''sEXCHANGES'')
   \<and> fst (validate_payload py_env (state_of channel_request)) \<noteq> Inl (KeyError ''bitmex'')"
proof -
  have sub: "set (EXCHANGES py_env) \<subseteq> dom (EXCHANGE_CHANNELS_INFO py_env)"
    by (simp add: py_env_def sample_EXCHANGES_def sample_EXCHANGE_CHANNELS_INFO_def)
  have out: "exchange (req (state_of unknown_exchange_request)) \<notin> set (EXCHANGES py_env)"
    by (simp add: scenario_defs)
  from channel_lookup_after_exchange_check[of "state_of unknown_exchange_request" py_env "''bitmex''"]
       channel_lookup_after_exchange_check[of "state_of channel_request" py_env "''bitmex''"]
       sub out
  show ?thesis by blast
qed

end
